theory Spec2Isabelle
  imports Main "HOL-Library.AList" "HOL-Library.Multiset"
begin

section \<open>RoadPlugin: hook dispatch and plugin lifecycle\<close>

text \<open>
  A shallow embedding of \<^verbatim>\<open>src/roadplugin/plugin.py\<close>. Every class of the module is a
  record, every method a function that takes the object and returns it updated. The
  locks of \<^verbatim>\<open>HookManager\<close> and \<^verbatim>\<open>PluginRegistry\<close> guard single steps of one caller and
  have no counterpart here; calls to \<^verbatim>\<open>logger\<close> are left out.
\<close>

subsection \<open>Python values and exceptions\<close>

text \<open>
  \<open>exc\<close> stands for an instance of Python's \<^verbatim>\<open>Exception\<close>, the class every
  \<^verbatim>\<open>except Exception\<close> of the module catches. \<^verbatim>\<open>KeyboardInterrupt\<close>, \<^verbatim>\<open>SystemExit\<close> and
  task cancellation are not instances of it and are outside the model.
\<close>

datatype exc = TypeError string | Exception string

text \<open>
  A value of type \<^verbatim>\<open>Any\<close>: \<^verbatim>\<open>None\<close>, a plain value, or an awaitable (a coroutine
  object) with the outcome that awaiting it has.
\<close>

datatype 'v pyobj = PyNone | Value 'v | Awaitable "exc + 'v pyobj"


text \<open>The arguments of a call, \<^verbatim>\<open>*args\<close> and \<^verbatim>\<open>**kwargs\<close>.\<close>

type_synonym 'v call_args = "'v pyobj list \<times> (string \<times> 'v pyobj) list"

text \<open>
  A callable: what calling it does, and what \<^verbatim>\<open>asyncio.iscoroutinefunction\<close> says of it.
\<close>

record 'v callable =
  call :: "'v call_args \<Rightarrow> exc + 'v pyobj"
  iscoroutinefunction :: bool

subsection \<open>Enumerations and data classes\<close>

datatype PluginState = DISCOVERED | LOADED | ENABLED | DISABLED | ERROR

datatype HookPriority = HIGHEST | HIGH | NORMAL | LOW | LOWEST

text \<open>The \<^verbatim>\<open>.value\<close> of a member of \<^verbatim>\<open>HookPriority\<close>.\<close>

fun priority_value :: "HookPriority \<Rightarrow> int" where
  "priority_value HIGHEST = 0"
| "priority_value HIGH = 25"
| "priority_value NORMAL = 50"
| "priority_value LOW = 75"
| "priority_value LOWEST = 100"

text \<open>
  The data classes. \<open>info_name\<close> and \<open>info_hooks\<close> are the fields \<^verbatim>\<open>name\<close> and \<^verbatim>\<open>hooks\<close> of
  \<^verbatim>\<open>PluginInfo\<close>, and \<open>ctx_plugin_name\<close> is the field \<^verbatim>\<open>plugin_name\<close> of \<^verbatim>\<open>PluginContext\<close>;
  the field \<^verbatim>\<open>config_schema\<close> of \<^verbatim>\<open>PluginInfo\<close>, which no code of the module reads, is left out.
\<close>

record PluginInfo =
  info_name :: string
  version :: string
  description :: string
  author :: string
  dependencies :: "string list"
  info_hooks :: "string list"

record 'v HookRegistration =
  name :: string
  handler :: "'v callable"
  plugin_name :: string
  priority :: HookPriority
  async_handler :: bool

record 'v PluginContext =
  ctx_plugin_name :: string
  config :: "(string \<times> 'v pyobj) list"
  data :: "(string \<times> 'v pyobj) list"

subsection \<open>HookManager\<close>

text \<open>
  \<^verbatim>\<open>self.hooks\<close> is a dict from hook name to a list of registrations: an association
  list in insertion order whose keys are distinct, read with \<open>map_of\<close> and written with
  \<open>AList.update\<close> (which replaces the value of a key in place and appends a new key).
\<close>

record 'v HookManager =
  hooks :: "(string \<times> 'v HookRegistration list) list"

definition HookManager_init :: "'v HookManager" where
  "HookManager_init = \<lparr>hooks = []\<rparr>"

text \<open>\<^verbatim>\<open>self.hooks.get(name, [])\<close>.\<close>

definition hooks_get :: "'v HookManager \<Rightarrow> string \<Rightarrow> 'v HookRegistration list" where
  "hooks_get h n = (case map_of (hooks h) n of Some hs \<Rightarrow> hs | None \<Rightarrow> [])"

text \<open>
  \<^verbatim>\<open>HookManager.register\<close>. The key is created first when it is missing, so the two
  subscripts \<^verbatim>\<open>self.hooks[registration.name]\<close> that follow never raise \<^verbatim>\<open>KeyError\<close>.
  \<^verbatim>\<open>list.sort\<close> is stable; \<open>sort_key\<close> is the stable sort of HOL.
\<close>

definition HookManager_register :: "'v HookManager \<Rightarrow> 'v HookRegistration \<Rightarrow> 'v HookManager" where
  "HookManager_register h registration =
     (let h1 = (if map_of (hooks h) (name registration) = None
                then h\<lparr>hooks := AList.update (name registration) [] (hooks h)\<rparr> else h);
          h2 = h1\<lparr>hooks := AList.update (name registration)
                  (hooks_get h1 (name registration) @ [registration]) (hooks h1)\<rparr>
      in h2\<lparr>hooks := AList.update (name registration)
                  (sort_key (\<lambda>r. priority_value (priority r)) (hooks_get h2 (name registration)))
                  (hooks h2)\<rparr>)"

text \<open>
  \<^verbatim>\<open>HookManager.unregister\<close>: the loop over the names of the dict, in dict order, with
  the counter \<^verbatim>\<open>count\<close> it accumulates (\<open>cnt\<close> here). Each entry is replaced by the list
  of its registrations whose owner differs.
\<close>

fun unregister_loop ::
  "string \<Rightarrow> (string \<times> 'v HookRegistration list) list \<Rightarrow> int \<Rightarrow>
   (string \<times> 'v HookRegistration list) list \<times> int" where
  "unregister_loop p [] cnt = ([], cnt)"
| "unregister_loop p ((n, hs) # rest) cnt =
     (let original_len = int (length hs);
          hs' = filter (\<lambda>r. plugin_name r \<noteq> p) hs;
          (rest', cnt') = unregister_loop p rest (cnt + (original_len - int (length hs')))
      in ((n, hs') # rest', cnt'))"

definition HookManager_unregister :: "'v HookManager \<Rightarrow> string \<Rightarrow> int \<times> 'v HookManager" where
  "HookManager_unregister h p =
     (let (d, cnt) = unregister_loop p (hooks h) 0 in (cnt, h\<lparr>hooks := d\<rparr>))"






text \<open>\<^verbatim>\<open>HookManager.list_hooks\<close>.\<close>

definition list_hooks :: "'v HookManager \<Rightarrow> (string \<times> nat) list" where
  "list_hooks h = map (\<lambda>(n, hs). (n, length hs)) (hooks h)"

subsection \<open>Plugin\<close>

text \<open>
  What running a method of a plugin does to the instance it runs on, as far as the
  manager sees it: the calls \<^verbatim>\<open>self.register_hook(name, handler, priority)\<close> it makes,
  in order, and the exception it raises, if it raises. The calls made before an
  exception have taken place. A method reads \<^verbatim>\<open>self\<close> through the state and the
  context of the instance; plugin code that assigns \<^verbatim>\<open>self.state\<close> itself is not
  modelled.
\<close>

record 'v callback_result =
  hook_calls :: "(string \<times> 'v callable \<times> HookPriority) list"
  raised :: "exc option"

type_synonym 'v callback = "PluginState \<Rightarrow> 'v PluginContext \<Rightarrow> 'v callback_result"

text \<open>A body that is \<^verbatim>\<open>pass\<close>.\<close>

definition pass :: "'v callback" where
  "pass s ctx = \<lparr>hook_calls = [], raised = None\<rparr>"

text \<open>
  A plugin type: the class attribute \<^verbatim>\<open>info\<close> and the methods a subclass of \<^verbatim>\<open>Plugin\<close>
  may override. \<open>init\<close> is the part of \<^verbatim>\<open>__init__\<close> a subclass adds to the one of
  \<^verbatim>\<open>Plugin\<close>.
\<close>

record 'v PluginClass =
  info :: PluginInfo
  init :: "'v callback"
  on_load :: "'v callback"
  on_enable :: "'v callback"
  on_disable :: "'v callback"
  on_unload :: "'v callback"

text \<open>\<^verbatim>\<open>PluginInfo(name=...)\<close> with the defaults of the data class.\<close>

definition PluginInfo_default :: "string \<Rightarrow> PluginInfo" where
  "PluginInfo_default n =
     \<lparr>info_name = n, version = ''0.1.0'', description = [], author = [],
      dependencies = [], info_hooks = []\<rparr>"

text \<open>The base class \<^verbatim>\<open>Plugin\<close>: its four callbacks are \<^verbatim>\<open>pass\<close>.\<close>

definition Plugin_class :: "'v PluginClass" where
  "Plugin_class =
     \<lparr>info = \<lparr>info_name = ''base_plugin'', version = ''0.1.0'', description = [],
              author = [], dependencies = [], info_hooks = []\<rparr>,
      init = pass, on_load = pass, on_enable = pass, on_disable = pass, on_unload = pass\<rparr>"

text \<open>A plugin instance: its type and the attributes \<^verbatim>\<open>Plugin.__init__\<close> sets
  (\<open>plugin_context\<close> is \<^verbatim>\<open>self.context\<close>, \<open>plugin_hooks\<close> is \<^verbatim>\<open>self._hooks\<close>).\<close>

record 'v Plugin =
  cls :: "'v PluginClass"
  plugin_context :: "'v PluginContext"
  state :: PluginState
  plugin_hooks :: "'v HookRegistration list"

definition register_hook ::
  "'v Plugin \<Rightarrow> string \<times> 'v callable \<times> HookPriority \<Rightarrow> 'v Plugin" where
  "register_hook self c =
     (case c of (n, f, pr) \<Rightarrow>
        self\<lparr>plugin_hooks := plugin_hooks self @
          [\<lparr>name = n, handler = f, plugin_name = info_name (info (cls self)),
            priority = pr, async_handler = iscoroutinefunction f\<rparr>]\<rparr>)"

definition get_hooks :: "'v Plugin \<Rightarrow> 'v HookRegistration list" where
  "get_hooks self = plugin_hooks self"

text \<open>
  Calling a method on an instance: the exception raised, if any, and the instance with
  the hooks the method has registered.
\<close>

definition run_callback ::
  "('v PluginClass \<Rightarrow> 'v callback) \<Rightarrow> 'v Plugin \<Rightarrow> exc option \<times> 'v Plugin" where
  "run_callback m self =
     (let r = m (cls self) (state self) (plugin_context self)
      in (raised r, foldl register_hook self (hook_calls r)))"

text \<open>\<^verbatim>\<open>plugin_class(context)\<close>: \<^verbatim>\<open>Plugin.__init__\<close>, then what the subclass adds.\<close>

definition new_Plugin :: "'v PluginClass \<Rightarrow> 'v PluginContext \<Rightarrow> exc + 'v Plugin" where
  "new_Plugin c ctx =
     (case run_callback init \<lparr>cls = c, plugin_context = ctx, state = LOADED, plugin_hooks = []\<rparr> of
        (Some e, self) \<Rightarrow> Inl e
      | (None, self) \<Rightarrow> Inr self)"

subsection \<open>PluginLoader\<close>

text \<open>
  The import machinery is outside the module. \<open>resolve n path\<close> is what the
  \<^verbatim>\<open>try\<close> block of \<^verbatim>\<open>PluginLoader.load\<close> finds for a name and an optional path at the
  time of the call: the first subclass of \<^verbatim>\<open>Plugin\<close> in the imported module, or
  \<open>None\<close> when the import raises or the module has no such class. \<^verbatim>\<open>sys.modules\<close> is not
  modelled. \<open>loaded\<close> is the attribute \<^verbatim>\<open>_loaded\<close>, the cache of resolved types.
\<close>

type_synonym 'v resolver = "string \<Rightarrow> string option \<Rightarrow> 'v PluginClass option"

record 'v PluginLoader =
  plugin_dirs :: "string list"
  loaded :: "(string \<times> 'v PluginClass) list"

definition PluginLoader_load ::
  "'v resolver \<Rightarrow> 'v PluginLoader \<Rightarrow> string \<Rightarrow> string option \<Rightarrow>
   'v PluginClass option \<times> 'v PluginLoader" where
  "PluginLoader_load resolve l n path =
     (case map_of (loaded l) n of
        Some c \<Rightarrow> (Some c, l)
      | None \<Rightarrow>
          (case resolve n path of
             Some c \<Rightarrow> (Some c, l\<lparr>loaded := AList.update n c (loaded l)\<rparr>)
           | None \<Rightarrow> (None, l)))"

definition PluginLoader_unload :: "'v PluginLoader \<Rightarrow> string \<Rightarrow> bool \<times> 'v PluginLoader" where
  "PluginLoader_unload l n =
     (if map_of (loaded l) n \<noteq> None
      then (True, l\<lparr>loaded := AList.delete n (loaded l)\<rparr>)
      else (False, l))"

subsection \<open>PluginRegistry\<close>

record 'v PluginRegistry =
  plugins :: "(string \<times> 'v Plugin) list"

definition PluginRegistry_register :: "'v PluginRegistry \<Rightarrow> 'v Plugin \<Rightarrow> 'v PluginRegistry" where
  "PluginRegistry_register reg p =
     reg\<lparr>plugins := AList.update (info_name (info (cls p))) p (plugins reg)\<rparr>"

text \<open>\<^verbatim>\<open>self.plugins.pop(name, None)\<close>.\<close>

definition PluginRegistry_unregister ::
  "'v PluginRegistry \<Rightarrow> string \<Rightarrow> 'v Plugin option \<times> 'v PluginRegistry" where
  "PluginRegistry_unregister reg n =
     (map_of (plugins reg) n, reg\<lparr>plugins := AList.delete n (plugins reg)\<rparr>)"

definition PluginRegistry_get :: "'v PluginRegistry \<Rightarrow> string \<Rightarrow> 'v Plugin option" where
  "PluginRegistry_get reg n = map_of (plugins reg) n"

definition get_by_state :: "'v PluginRegistry \<Rightarrow> PluginState \<Rightarrow> 'v Plugin list" where
  "get_by_state reg s = filter (\<lambda>p. state p = s) (map snd (plugins reg))"

subsection \<open>PluginManager\<close>

datatype lifecycle = OnLoad | OnEnable | OnDisable | OnUnload

text \<open>
  The manager. \<open>hook_manager\<close> is the attribute \<^verbatim>\<open>hooks\<close> and \<open>configs\<close> the attribute
  \<^verbatim>\<open>_configs\<close>. \<open>calls\<close> is not an attribute of the source: it records, in order, every
  lifecycle callback the manager has invoked and the name it was invoked for, so that
  "the callback is invoked" can be stated.
\<close>

record 'v PluginManager =
  loader :: "'v PluginLoader"
  registry :: "'v PluginRegistry"
  hook_manager :: "'v HookManager"
  configs :: "(string \<times> (string \<times> 'v pyobj) list) list"
  calls :: "(string \<times> lifecycle) list"

definition PluginManager_init :: "string list \<Rightarrow> 'v PluginManager" where
  "PluginManager_init dirs =
     \<lparr>loader = \<lparr>plugin_dirs = dirs, loaded = []\<rparr>, registry = \<lparr>plugins = []\<rparr>,
      hook_manager = HookManager_init, configs = [], calls = []\<rparr>"

definition set_config ::
  "'v PluginManager \<Rightarrow> string \<Rightarrow> (string \<times> 'v pyobj) list \<Rightarrow> 'v PluginManager" where
  "set_config m n cf = m\<lparr>configs := AList.update n cf (configs m)\<rparr>"

text \<open>
  An instance the registry returns is an object the registry still holds: an assignment
  to one of its attributes is a write to the entry it was found under.
\<close>

definition store_plugin :: "'v PluginManager \<Rightarrow> string \<Rightarrow> 'v Plugin \<Rightarrow> 'v PluginManager" where
  "store_plugin m n p =
     m\<lparr>registry := (registry m)\<lparr>plugins := AList.update n p (plugins (registry m))\<rparr>\<rparr>"

text \<open>The \<^verbatim>\<open>PluginContext\<close> that \<^verbatim>\<open>load\<close> builds for a name.\<close>

definition new_context :: "'v PluginManager \<Rightarrow> string \<Rightarrow> 'v PluginContext" where
  "new_context m n =
     \<lparr>ctx_plugin_name = n,
      config = (case map_of (configs m) n of Some cf \<Rightarrow> cf | None \<Rightarrow> []),
      data = []\<rparr>"

definition PluginManager_load ::
  "'v resolver \<Rightarrow> 'v PluginManager \<Rightarrow> string \<Rightarrow> string option \<Rightarrow>
   'v Plugin option \<times> 'v PluginManager" where
  "PluginManager_load resolve m n path =
     (let (plugin_class, l) = PluginLoader_load resolve (loader m) n path;
          m1 = m\<lparr>loader := l\<rparr>
      in case plugin_class of
           None \<Rightarrow> (None, m1)
         | Some c \<Rightarrow>
             (case new_Plugin c (new_context m1 n) of
                Inl e \<Rightarrow> (None, m1)
              | Inr p \<Rightarrow>
                  (let m2 = m1\<lparr>calls := calls m1 @ [(n, OnLoad)]\<rparr>
                   in case run_callback on_load p of
                        (Some e, p') \<Rightarrow> (None, m2)
                      | (None, p') \<Rightarrow>
                          (Some p',
                           m2\<lparr>hook_manager :=
                                 foldl HookManager_register (hook_manager m2) (get_hooks p'),
                               registry := PluginRegistry_register (registry m2) p'\<rparr>))))"

definition PluginManager_enable :: "'v PluginManager \<Rightarrow> string \<Rightarrow> bool \<times> 'v PluginManager" where
  "PluginManager_enable m n =
     (case PluginRegistry_get (registry m) n of
        None \<Rightarrow> (False, m)
      | Some p \<Rightarrow>
          if state p = ENABLED then (True, m)
          else (let m1 = m\<lparr>calls := calls m @ [(n, OnEnable)]\<rparr>
                in case run_callback on_enable p of
                     (None, p') \<Rightarrow> (True, store_plugin m1 n (p'\<lparr>state := ENABLED\<rparr>))
                   | (Some e, p') \<Rightarrow> (False, store_plugin m1 n (p'\<lparr>state := ERROR\<rparr>))))"

definition PluginManager_disable :: "'v PluginManager \<Rightarrow> string \<Rightarrow> bool \<times> 'v PluginManager" where
  "PluginManager_disable m n =
     (case PluginRegistry_get (registry m) n of
        None \<Rightarrow> (False, m)
      | Some p \<Rightarrow>
          if state p = DISABLED then (True, m)
          else (let m1 = m\<lparr>calls := calls m @ [(n, OnDisable)]\<rparr>
                in case run_callback on_disable p of
                     (None, p') \<Rightarrow> (True, store_plugin m1 n (p'\<lparr>state := DISABLED\<rparr>))
                   | (Some e, p') \<Rightarrow> (False, store_plugin m1 n p')))"

text \<open>
  \<^verbatim>\<open>PluginManager.unload\<close>. The result of the call to \<^verbatim>\<open>disable\<close> is dropped. The local
  \<^verbatim>\<open>plugin\<close> is the object the registry holds under the name, which \<^verbatim>\<open>disable\<close> may have
  written to, so the model reads it back; \<^verbatim>\<open>disable\<close> removes no entry, and the branch
  \<open>None\<close> of the second lookup is never taken (lemma \<open>disable_keeps_entry\<close>).
\<close>

definition PluginManager_unload :: "'v PluginManager \<Rightarrow> string \<Rightarrow> bool \<times> 'v PluginManager" where
  "PluginManager_unload m n =
     (case PluginRegistry_get (registry m) n of
        None \<Rightarrow> (False, m)
      | Some p0 \<Rightarrow>
          (let m1 = (if state p0 = ENABLED then snd (PluginManager_disable m n) else m)
           in case PluginRegistry_get (registry m1) n of
                None \<Rightarrow> (False, m1)
              | Some p \<Rightarrow>
                  (let m2 = m1\<lparr>calls := calls m1 @ [(n, OnUnload)]\<rparr>
                   in case run_callback on_unload p of
                        (None, p') \<Rightarrow>
                          (True,
                           m2\<lparr>hook_manager := snd (HookManager_unregister (hook_manager m2) n),
                              registry := snd (PluginRegistry_unregister (registry m2) n),
                              loader := snd (PluginLoader_unload (loader m2) n)\<rparr>)
                      | (Some e, p') \<Rightarrow> (False, store_plugin m2 n p'))))"

definition PluginManager_reload ::
  "'v resolver \<Rightarrow> 'v PluginManager \<Rightarrow> string \<Rightarrow> 'v Plugin option \<times> 'v PluginManager" where
  "PluginManager_reload resolve m n =
     (let m1 = (case PluginRegistry_get (registry m) n of
                  Some p \<Rightarrow> snd (PluginManager_unload m n)
                | None \<Rightarrow> m)
      in PluginManager_load resolve m1 n None)"

text \<open>The state of the instance the catalog holds under a name.\<close>

definition state_of :: "'v PluginManager \<Rightarrow> string \<Rightarrow> PluginState option" where
  "state_of m n = map_option state (PluginRegistry_get (registry m) n)"

subsection \<open>The decorator \<^verbatim>\<open>plugin\<close>\<close>

text \<open>
  The class given to the decorator, as the decorator looks at it: for each of the four
  callback names, whether the class has the attribute (\<^verbatim>\<open>hasattr\<close>) and what calling it
  on \<^verbatim>\<open>self\<close> does. Its other public attributes are copied over as they are and play
  no part in the lifecycle.
\<close>

record 'v plain_class =
  cls_on_load :: "'v callback option"
  cls_on_enable :: "'v callback option"
  cls_on_disable :: "'v callback option"
  cls_on_unload :: "'v callback option"

text \<open>
  \<^verbatim>\<open>plugin(name, version, description)(cls)\<close>: the subclass \<^verbatim>\<open>DecoratedPlugin\<close> of
  \<^verbatim>\<open>Plugin\<close>. It overrides \<^verbatim>\<open>info\<close>, \<^verbatim>\<open>on_load\<close>, \<^verbatim>\<open>on_enable\<close> and \<^verbatim>\<open>on_disable\<close> and
  inherits the rest; the loop that copies attributes skips the four callback names.
  Further keyword arguments go to \<^verbatim>\<open>PluginInfo\<close>; they are left at their defaults here.
\<close>

definition plugin :: "string \<Rightarrow> string \<Rightarrow> string \<Rightarrow> 'v plain_class \<Rightarrow> 'v PluginClass" where
  "plugin n v d c =
     Plugin_class
       \<lparr>info := (PluginInfo_default n)\<lparr>version := v, description := d\<rparr>,
        on_load := (\<lambda>s ctx. case cls_on_load c of Some f \<Rightarrow> f s ctx | None \<Rightarrow> pass s ctx),
        on_enable := (\<lambda>s ctx. case cls_on_enable c of Some f \<Rightarrow> f s ctx | None \<Rightarrow> pass s ctx),
        on_disable := (\<lambda>s ctx. case cls_on_disable c of Some f \<Rightarrow> f s ctx | None \<Rightarrow> pass s ctx)\<rparr>"

subsection \<open>Concrete plugins\<close>

text \<open>
  A plugin type named \<open>p\<close> whose \<^verbatim>\<open>on_load\<close> registers one handler for the hook \<open>h\<close>.
  The four flags say which of \<^verbatim>\<open>on_load\<close>, \<^verbatim>\<open>on_enable\<close>, \<^verbatim>\<open>on_disable\<close> and
  \<^verbatim>\<open>on_unload\<close> raise; \<^verbatim>\<open>on_enable\<close> raises only on an instance in state \<^verbatim>\<open>LOADED\<close>
  (the first attempt fails, a retry goes through).
\<close>

definition demo_handler :: "int callable" where
  "demo_handler = \<lparr>call = (\<lambda>a. Inr (Value 1)), iscoroutinefunction = False\<rparr>"

definition demo_class :: "bool \<Rightarrow> bool \<Rightarrow> bool \<Rightarrow> bool \<Rightarrow> int PluginClass" where
  "demo_class fl fe fd fu =
     Plugin_class
       \<lparr>info := PluginInfo_default ''p'',
        on_load := (\<lambda>s ctx. \<lparr>hook_calls = [(''h'', demo_handler, NORMAL)],
                      raised = (if fl then Some (Exception ''load'') else None)\<rparr>),
        on_enable := (\<lambda>s ctx. \<lparr>hook_calls = [],
                      raised = (if fe \<and> s = LOADED then Some (Exception ''enable'') else None)\<rparr>),
        on_disable := (\<lambda>s ctx. \<lparr>hook_calls = [],
                      raised = (if fd then Some (Exception ''disable'') else None)\<rparr>),
        on_unload := (\<lambda>s ctx. \<lparr>hook_calls = [],
                      raised = (if fu then Some (Exception ''unload'') else None)\<rparr>)\<rparr>"

text \<open>The same type with a constructor that raises.\<close>

definition demo_class_bad_init :: "int PluginClass" where
  "demo_class_bad_init =
     (demo_class False False False False)
       \<lparr>init := (\<lambda>s ctx. \<lparr>hook_calls = [], raised = Some (Exception ''init'')\<rparr>)\<rparr>"

text \<open>An import that finds the given type for the name \<open>p\<close> and nothing else.\<close>

definition demo_resolve :: "int PluginClass \<Rightarrow> int resolver" where
  "demo_resolve c n path = (if n = ''p'' then Some c else None)"

text \<open>A fresh manager after \<^verbatim>\<open>load("p")\<close>, and after \<^verbatim>\<open>load("p")\<close> and \<^verbatim>\<open>enable("p")\<close>.\<close>

definition demo_loaded :: "int PluginClass \<Rightarrow> int PluginManager" where
  "demo_loaded c = snd (PluginManager_load (demo_resolve c) (PluginManager_init []) ''p'' None)"

definition demo_enabled :: "int PluginClass \<Rightarrow> int PluginManager" where
  "demo_enabled c = snd (PluginManager_enable (demo_loaded c) ''p'')"

text \<open>
  \<^verbatim>\<open>load("p")\<close> once more on a manager that has loaded and enabled \<open>p\<close>.
\<close>

definition demo_reloaded :: "int PluginClass \<Rightarrow> int PluginManager" where
  "demo_reloaded c = snd (PluginManager_load (demo_resolve c) (demo_enabled c) ''p'' None)"

text \<open>The instance of a type that \<^verbatim>\<open>load("p")\<close> has run \<^verbatim>\<open>on_load\<close> on, in a given state.\<close>

definition demo_instance :: "int PluginClass \<Rightarrow> PluginState \<Rightarrow> int Plugin" where
  "demo_instance c s =
     \<lparr>cls = c, plugin_context = \<lparr>ctx_plugin_name = ''p'', config = [], data = []\<rparr>,
      state = s,
      plugin_hooks = [\<lparr>name = ''h'', handler = demo_handler, plugin_name = ''p'',
                       priority = NORMAL, async_handler = False\<rparr>]\<rparr>"

text \<open>A plain class that has \<^verbatim>\<open>on_unload\<close>, which raises, and no other callback.\<close>

definition demo_on_unload :: "int callback" where
  "demo_on_unload s ctx = \<lparr>hook_calls = [], raised = Some (Exception ''unload'')\<rparr>"

definition demo_plain :: "int plain_class" where
  "demo_plain =
     \<lparr>cls_on_load = None, cls_on_enable = None, cls_on_disable = None,
      cls_on_unload = Some demo_on_unload\<rparr>"







text \<open>
  An import that finds the given type in the module \<open>q\<close>: the name the type is loaded
  under is not the name its \<^verbatim>\<open>info\<close> gives. A fresh manager after \<^verbatim>\<open>load("q")\<close>, and
  after \<^verbatim>\<open>load("q")\<close> and \<^verbatim>\<open>enable("p")\<close>.
\<close>

definition demo_q_instance :: "int PluginClass \<Rightarrow> PluginState \<Rightarrow> int Plugin" where
  "demo_q_instance c s =
     (demo_instance c s)\<lparr>plugin_context := \<lparr>ctx_plugin_name = ''q'', config = [], data = []\<rparr>\<rparr>"

definition demo_resolve_q :: "int PluginClass \<Rightarrow> int resolver" where
  "demo_resolve_q c n path = (if n = ''q'' then Some c else None)"

definition demo_q_loaded :: "int PluginClass \<Rightarrow> int PluginManager" where
  "demo_q_loaded c = snd (PluginManager_load (demo_resolve_q c) (PluginManager_init []) ''q'' None)"

definition demo_q_enabled :: "int PluginClass \<Rightarrow> int PluginManager" where
  "demo_q_enabled c = snd (PluginManager_enable (demo_q_loaded c) ''p'')"

section \<open>Properties of the hook registry\<close>

subsection \<open>Auxiliary facts\<close>

lemma hooks_get_register:
  "hooks_get (HookManager_register h r) n =
     (if n = name r then sort_key (\<lambda>r. priority_value (priority r)) (hooks_get h n @ [r])
      else hooks_get h n)"
  by (simp add: HookManager_register_def hooks_get_def Let_def update_conv')

lemma sort_key_absorb:
  "sort_key f (sort_key f xs @ ys) = sort_key f (xs @ ys)"
proof (rule properties_for_sort_key)
  show "mset (sort_key f (xs @ ys)) = mset (sort_key f xs @ ys)"
    by simp
  show "filter (\<lambda>x. f k = f x) (sort_key f (xs @ ys)) = filter (\<lambda>x. f k = f x) (sort_key f xs @ ys)"
    if "k \<in> set (sort_key f (xs @ ys))" for k
  proof -
    have eq: "(\<lambda>x. f k = f x) = (\<lambda>x. f x = f k)" by auto
    show ?thesis unfolding eq by (simp add: sort_key_stable)
  qed
  show "sorted (map f (sort_key f (xs @ ys)))"
    by (rule sorted_sort_key)
qed

lemma hooks_get_init: "hooks_get HookManager_init n = []"
  by (simp add: hooks_get_def HookManager_init_def)

lemma hooks_get_foldl_register:
  "hooks_get (foldl HookManager_register HookManager_init regs) n =
     sort_key (\<lambda>r. priority_value (priority r)) (filter (\<lambda>r. name r = n) regs)"
proof (induction regs rule: rev_induct)
  case Nil
  show ?case by (simp add: hooks_get_init)
next
  case (snoc r regs)
  show ?case
  proof (cases "name r = n")
    case True
    then show ?thesis
      using snoc by (simp add: hooks_get_register sort_key_absorb)
  next
    case False
    then show ?thesis
      using snoc by (auto simp add: hooks_get_register)
  qed
qed



lemma unregister_loop_eq:
  "unregister_loop p d c =
     (map (\<lambda>(n, hs). (n, filter (\<lambda>r. plugin_name r \<noteq> p) hs)) d,
      c + (\<Sum>(n, hs)\<leftarrow>d. int (length (filter (\<lambda>r. plugin_name r = p) hs))))"
proof (induction d arbitrary: c)
  case Nil
  show ?case by simp
next
  case (Cons e d)
  obtain n hs where e: "e = (n, hs)" by (cases e)
  have len: "int (length hs) - int (length (filter (\<lambda>r. plugin_name r \<noteq> p) hs))
     = int (length (filter (\<lambda>r. plugin_name r = p) hs))"
    using sum_length_filter_compl [of "\<lambda>r. plugin_name r = p" hs] by simp
  show ?case
    by (simp add: e Cons.IH len Let_def)
qed

lemma hooks_get_unregister:
  "hooks_get (snd (HookManager_unregister h p)) n = filter (\<lambda>r. plugin_name r \<noteq> p) (hooks_get h n)"
  by (simp add: HookManager_unregister_def unregister_loop_eq hooks_get_def map_of_map
      split: option.splits)

lemma hooks_get_foldl_register_gen:
  "hooks_get (foldl HookManager_register h rs) n
     = (if filter (\<lambda>r. name r = n) rs = [] then hooks_get h n
        else sort_key (\<lambda>r. priority_value (priority r))
               (hooks_get h n @ filter (\<lambda>r. name r = n) rs))"
proof (induction rs rule: rev_induct)
  case Nil
  show ?case by simp
next
  case (snoc r rs)
  show ?case
  proof (cases "name r = n")
    case True
    then show ?thesis
      using snoc by (simp add: hooks_get_register sort_key_absorb)
  next
    case False
    then show ?thesis
      using snoc by (simp add: hooks_get_register)
  qed
qed



subsection \<open>Ordering of registrations\<close>

text \<open>
  Claim C4. After any call of \<^verbatim>\<open>HookManager.register\<close>, whatever the registry held
  before, the list stored for the hook name of the registration is sorted in
  non-decreasing order of priority value, and the registrations of each priority value
  are those of the old list followed by the new one, in that order. Hence for every
  sequence of registrations made on a fresh registry, the list stored for a hook name is
  sorted by priority value, and the registrations of equal priority appear in the order
  in which they were registered.
\<close>

theorem C4_register_sorted_stable:
  "sorted (map (\<lambda>r. priority_value (priority r))
            (hooks_get (HookManager_register h reg) (name reg)))
   \<and> (\<forall>k. filter (\<lambda>r. priority_value (priority r) = k)
              (hooks_get (HookManager_register h reg) (name reg))
          = filter (\<lambda>r. priority_value (priority r) = k) (hooks_get h (name reg) @ [reg]))
   \<and> sorted (map (\<lambda>r. priority_value (priority r))
            (hooks_get (foldl HookManager_register HookManager_init regs) n))
   \<and> (\<forall>k. filter (\<lambda>r. priority_value (priority r) = k)
              (hooks_get (foldl HookManager_register HookManager_init regs) n)
          = filter (\<lambda>r. priority_value (priority r) = k) (filter (\<lambda>r. name r = n) regs))"
  by (simp add: hooks_get_register hooks_get_foldl_register sort_key_stable)

subsection \<open>Dispatch\<close>





subsection \<open>Removing the registrations of an owner\<close>

text \<open>
  Claim C7. \<^verbatim>\<open>HookManager.unregister\<close> keeps every hook name, replaces the list of each
  name by its registrations whose owner differs from the given one, in their old order,
  and returns the number of registrations whose owner is the given one, which is the
  number of registrations before the call minus the number after it.
\<close>

theorem C7_unregister_exact:
  "hooks (snd (HookManager_unregister h p))
     = map (\<lambda>(n, hs). (n, filter (\<lambda>r. plugin_name r \<noteq> p) hs)) (hooks h)
   \<and> (\<forall>n. hooks_get (snd (HookManager_unregister h p)) n
          = filter (\<lambda>r. plugin_name r \<noteq> p) (hooks_get h n))
   \<and> fst (HookManager_unregister h p)
     = (\<Sum>(n, hs)\<leftarrow>hooks h. int (length (filter (\<lambda>r. plugin_name r = p) hs)))
   \<and> fst (HookManager_unregister h p)
     = (\<Sum>(n, hs)\<leftarrow>hooks h. int (length hs))
       - (\<Sum>(n, hs)\<leftarrow>hooks (snd (HookManager_unregister h p)). int (length hs))"
proof -
  have a: "hooks (snd (HookManager_unregister h p))
     = map (\<lambda>(n, hs). (n, filter (\<lambda>r. plugin_name r \<noteq> p) hs)) (hooks h)"
    by (simp add: HookManager_unregister_def unregister_loop_eq)
  have c: "fst (HookManager_unregister h p)
     = (\<Sum>(n, hs)\<leftarrow>hooks h. int (length (filter (\<lambda>r. plugin_name r = p) hs)))"
    by (simp add: HookManager_unregister_def unregister_loop_eq)
  have d: "(\<Sum>(n, hs)\<leftarrow>d. int (length (filter (\<lambda>r. plugin_name r = p) hs)))
     = (\<Sum>(n, hs)\<leftarrow>d. int (length hs))
       - (\<Sum>(n, hs)\<leftarrow>map (\<lambda>(n, hs). (n, filter (\<lambda>r. plugin_name r \<noteq> p) hs)) d.
            int (length hs))" for d :: "(string \<times> 'a HookRegistration list) list"
  proof (induction d)
    case Nil
    show ?case by simp
  next
    case (Cons e d)
    obtain n hs where e: "e = (n, hs)" by (cases e)
    have "length (filter (\<lambda>r. plugin_name r = p) hs)
        + length (filter (\<lambda>r. plugin_name r \<noteq> p) hs) = length hs"
      using sum_length_filter_compl [of "\<lambda>r. plugin_name r = p" hs] by simp
    then show ?case using Cons.IH by (simp add: e)
  qed
  show ?thesis
    using a c d [of "hooks h"] by (simp add: hooks_get_unregister)
qed

section \<open>Properties of the plugin lifecycle\<close>

subsection \<open>Auxiliary facts\<close>

lemma register_hook_fields [simp]:
  "cls (register_hook self c) = cls self"
  "state (register_hook self c) = state self"
  "plugin_context (register_hook self c) = plugin_context self"
  by (simp_all add: register_hook_def split: prod.splits)

lemma foldl_register_hook_fields [simp]:
  "cls (foldl register_hook self cs) = cls self"
  "state (foldl register_hook self cs) = state self"
  "plugin_context (foldl register_hook self cs) = plugin_context self"
  by (induction cs arbitrary: self) simp_all

lemma run_callback_fst:
  "fst (run_callback cb self) = raised (cb (cls self) (state self) (plugin_context self))"
  by (simp add: run_callback_def Let_def)

lemma run_callback_fields [simp]:
  "cls (snd (run_callback cb self)) = cls self"
  "state (snd (run_callback cb self)) = state self"
  "plugin_context (snd (run_callback cb self)) = plugin_context self"
  by (simp_all add: run_callback_def Let_def)

lemma run_callback_no_hooks:
  "hook_calls (cb (cls self) (state self) (plugin_context self)) = [] \<Longrightarrow>
   snd (run_callback cb self) = self"
  by (simp add: run_callback_def Let_def)

lemma store_plugin_fields [simp]:
  "hook_manager (store_plugin m n p) = hook_manager m"
  "loader (store_plugin m n p) = loader m"
  "calls (store_plugin m n p) = calls m"
  "configs (store_plugin m n p) = configs m"
  by (simp_all add: store_plugin_def)

lemma get_store_plugin [simp]:
  "PluginRegistry_get (registry (store_plugin m n p)) n' =
     (if n' = n then Some p else PluginRegistry_get (registry m) n')"
  by (simp add: store_plugin_def PluginRegistry_get_def update_conv')

lemma state_of_store_plugin [simp]:
  "state_of (store_plugin m n p) n' = (if n' = n then Some (state p) else state_of m n')"
  by (simp add: state_of_def)

lemma state_of_calls [simp]: "state_of (m\<lparr>calls := cs\<rparr>) n = state_of m n"
  by (simp add: state_of_def)

lemma PluginManager_init_fields [simp]:
  "loader (PluginManager_init d) = \<lparr>plugin_dirs = d, loaded = []\<rparr>"
  "registry (PluginManager_init d) = \<lparr>plugins = []\<rparr>"
  "hook_manager (PluginManager_init d) = HookManager_init"
  "configs (PluginManager_init d) = []"
  "calls (PluginManager_init d) = []"
  by (simp_all add: PluginManager_init_def)

lemma get_after_unregister [simp]:
  "PluginRegistry_get (snd (PluginRegistry_unregister reg n)) n' =
     (if n' = n then None else PluginRegistry_get reg n')"
  by (simp add: PluginRegistry_unregister_def PluginRegistry_get_def delete_conv')

lemma loaded_after_unload [simp]:
  "map_of (loaded (snd (PluginLoader_unload l n))) n' =
     (if n' = n then None else map_of (loaded l) n')"
  by (auto simp add: PluginLoader_unload_def delete_conv')

lemma new_Plugin_fields:
  assumes "new_Plugin c ctx = Inr p"
  shows "cls p = c" "state p = LOADED" "plugin_context p = ctx"
proof -
  let ?p0 = "\<lparr>cls = c, plugin_context = ctx, state = LOADED, plugin_hooks = []\<rparr>"
  from assms have "p = snd (run_callback init ?p0)"
    by (cases "run_callback init ?p0") (auto simp add: new_Plugin_def split: option.splits)
  then show "cls p = c" "state p = LOADED" "plugin_context p = ctx"
    by simp_all
qed

lemma foldl_register_hook_eq:
  "foldl register_hook self cs
     = self\<lparr>plugin_hooks := plugin_hooks self @
         map (\<lambda>(hn, f, pr). \<lparr>name = hn, handler = f, plugin_name = info_name (info (cls self)),
                               priority = pr, async_handler = iscoroutinefunction f\<rparr>) cs\<rparr>"
proof (induction cs arbitrary: self)
  case Nil
  show ?case by simp
next
  case (Cons c cs)
  show ?case
    by (cases c) (simp add: Cons.IH, simp add: register_hook_def)
qed

lemma new_Plugin_eq:
  "new_Plugin c ctx
     = (case raised (init c LOADED ctx) of
          Some e \<Rightarrow> Inl e
        | None \<Rightarrow>
            Inr \<lparr>cls = c, plugin_context = ctx, state = LOADED,
                 plugin_hooks =
                   map (\<lambda>(hn, f, pr). \<lparr>name = hn, handler = f, plugin_name = info_name (info c),
                                         priority = pr, async_handler = iscoroutinefunction f\<rparr>)
                     (hook_calls (init c LOADED ctx))\<rparr>)"
  by (simp add: new_Plugin_def run_callback_def Let_def foldl_register_hook_eq
      split: option.splits)

lemma length_hooks_get_foldl_register:
  "length (hooks_get (foldl HookManager_register h rs) n)
     = length (hooks_get h n) + length (filter (\<lambda>r. name r = n) rs)"
  by (induction rs arbitrary: h) (auto simp add: hooks_get_register)

lemma loader_load_cached:
  "map_of (loaded l) n = Some c \<Longrightarrow> PluginLoader_load resolve l n path = (Some c, l)"
  by (simp add: PluginLoader_load_def)

lemma loader_load_configs [simp]: "new_context (m\<lparr>loader := l\<rparr>) n = new_context m n"
  by (simp add: new_context_def)

text \<open>
  What \<^verbatim>\<open>enable\<close> and \<^verbatim>\<open>disable\<close> do to a plugin that is in the catalog and not yet in
  the state asked for.
\<close>

lemma enable_eq:
  assumes "PluginRegistry_get (registry m) n = Some p" "state p \<noteq> ENABLED"
  shows "PluginManager_enable m n =
     (raised (on_enable (cls p) (state p) (plugin_context p)) = None,
      store_plugin (m\<lparr>calls := calls m @ [(n, OnEnable)]\<rparr>) n
        ((snd (run_callback on_enable p))
           \<lparr>state := if raised (on_enable (cls p) (state p) (plugin_context p)) = None
                     then ENABLED else ERROR\<rparr>))"
  using assms run_callback_fst [of on_enable p]
  by (cases "run_callback on_enable p")
     (auto simp add: PluginManager_enable_def Let_def split: option.splits)

lemma disable_eq:
  assumes "PluginRegistry_get (registry m) n = Some p" "state p \<noteq> DISABLED"
  shows "PluginManager_disable m n =
     (raised (on_disable (cls p) (state p) (plugin_context p)) = None,
      store_plugin (m\<lparr>calls := calls m @ [(n, OnDisable)]\<rparr>) n
        (if raised (on_disable (cls p) (state p) (plugin_context p)) = None
         then (snd (run_callback on_disable p))\<lparr>state := DISABLED\<rparr>
         else snd (run_callback on_disable p)))"
  using assms run_callback_fst [of on_disable p]
  by (cases "run_callback on_disable p")
     (auto simp add: PluginManager_disable_def Let_def split: option.splits)

lemma enable_other:
  "n' \<noteq> n \<Longrightarrow> state_of (snd (PluginManager_enable m n)) n' = state_of m n'"
proof (cases "PluginRegistry_get (registry m) n")
  case None
  then show ?thesis by (simp add: PluginManager_enable_def)
next
  case (Some p)
  assume "n' \<noteq> n"
  then show ?thesis
    using Some enable_eq [OF Some]
    by (cases "state p = ENABLED") (simp_all add: PluginManager_enable_def)
qed

lemma disable_other:
  "n' \<noteq> n \<Longrightarrow> state_of (snd (PluginManager_disable m n)) n' = state_of m n'"
proof (cases "PluginRegistry_get (registry m) n")
  case None
  then show ?thesis by (simp add: PluginManager_disable_def)
next
  case (Some p)
  assume "n' \<noteq> n"
  then show ?thesis
    using Some disable_eq [OF Some]
    by (cases "state p = DISABLED") (simp_all add: PluginManager_disable_def)
qed

lemma disable_keeps_entry:
  assumes "PluginRegistry_get (registry m) n = Some p"
  shows "\<exists>q. PluginRegistry_get (registry (snd (PluginManager_disable m n))) n = Some q"
proof (cases "state p = DISABLED")
  case True
  with assms show ?thesis by (simp add: PluginManager_disable_def)
next
  case False
  with assms show ?thesis by (simp add: disable_eq)
qed

text \<open>
  What \<^verbatim>\<open>unload\<close> finds after its implicit call of \<^verbatim>\<open>disable\<close>, and what it does then.
\<close>

lemma after_implicit_disable:
  assumes "PluginRegistry_get (registry m) n = Some p0"
  shows "\<exists>p. PluginRegistry_get
              (registry (if state p0 = ENABLED then snd (PluginManager_disable m n) else m)) n
            = Some p
       \<and> cls p = cls p0 \<and> plugin_context p = plugin_context p0
       \<and> state p = (if state p0 = ENABLED
                       \<and> raised (on_disable (cls p0) ENABLED (plugin_context p0)) = None
                     then DISABLED else state p0)"
  using assms by (auto simp add: disable_eq)

lemma implicit_disable_rest:
  assumes "PluginRegistry_get (registry m) n = Some p0"
  shows "hook_manager (if state p0 = ENABLED then snd (PluginManager_disable m n) else m)
           = hook_manager m"
    and "loader (if state p0 = ENABLED then snd (PluginManager_disable m n) else m) = loader m"
    and "calls (if state p0 = ENABLED then snd (PluginManager_disable m n) else m)
           = calls m @ (if state p0 = ENABLED then [(n, OnDisable)] else [])"
    and "n' \<noteq> n \<Longrightarrow>
         PluginRegistry_get
           (registry (if state p0 = ENABLED then snd (PluginManager_disable m n) else m)) n'
         = PluginRegistry_get (registry m) n'"
  using assms by (auto simp add: disable_eq)

lemma unload_eq:
  assumes get: "PluginRegistry_get (registry m) n = Some p0"
    and s1: "s1 = (if state p0 = ENABLED
                     \<and> raised (on_disable (cls p0) ENABLED (plugin_context p0)) = None
                   then DISABLED else state p0)"
    and m1: "m1 = (if state p0 = ENABLED then snd (PluginManager_disable m n) else m)"
  shows "\<exists>p. PluginRegistry_get (registry m1) n = Some p \<and> state p = s1
       \<and> PluginManager_unload m n =
         (if raised (on_unload (cls p0) s1 (plugin_context p0)) = None
          then (True,
                m1\<lparr>calls := calls m1 @ [(n, OnUnload)],
                   hook_manager := snd (HookManager_unregister (hook_manager m1) n),
                   registry := snd (PluginRegistry_unregister (registry m1) n),
                   loader := snd (PluginLoader_unload (loader m1) n)\<rparr>)
          else (False,
                store_plugin (m1\<lparr>calls := calls m1 @ [(n, OnUnload)]\<rparr>) n
                  (snd (run_callback on_unload p))))"
proof -
  from after_implicit_disable [OF get] obtain p where
    p: "PluginRegistry_get (registry m1) n = Some p" "cls p = cls p0"
       "plugin_context p = plugin_context p0" "state p = s1"
    unfolding m1 s1 by blast
  have r: "fst (run_callback on_unload p) = raised (on_unload (cls p0) s1 (plugin_context p0))"
    by (simp add: run_callback_fst p)
  have "PluginManager_unload m n =
         (if raised (on_unload (cls p0) s1 (plugin_context p0)) = None
          then (True,
                m1\<lparr>calls := calls m1 @ [(n, OnUnload)],
                   hook_manager := snd (HookManager_unregister (hook_manager m1) n),
                   registry := snd (PluginRegistry_unregister (registry m1) n),
                   loader := snd (PluginLoader_unload (loader m1) n)\<rparr>)
          else (False,
                store_plugin (m1\<lparr>calls := calls m1 @ [(n, OnUnload)]\<rparr>) n
                  (snd (run_callback on_unload p))))"
    using get p(1) r unfolding PluginManager_unload_def m1 [symmetric]
    by (cases "run_callback on_unload p") (auto simp add: Let_def m1 [symmetric])
  with p show ?thesis by blast
qed

text \<open>
  \<^verbatim>\<open>load\<close>, split by whether the loader finds a type.
\<close>

lemma load_unresolved:
  "fst (PluginLoader_load resolve (loader m) n path) = None \<Longrightarrow>
   PluginManager_load resolve m n path
     = (None, m\<lparr>loader := snd (PluginLoader_load resolve (loader m) n path)\<rparr>)"
  by (cases "PluginLoader_load resolve (loader m) n path")
     (simp add: PluginManager_load_def)

lemma load_resolved:
  "fst (PluginLoader_load resolve (loader m) n path) = Some c \<Longrightarrow>
   PluginManager_load resolve m n path
     = (let m1 = m\<lparr>loader := snd (PluginLoader_load resolve (loader m) n path)\<rparr>
        in case new_Plugin c (new_context m n) of
             Inl e \<Rightarrow> (None, m1)
           | Inr p \<Rightarrow>
               (if fst (run_callback on_load p) = None
                then (Some (snd (run_callback on_load p)),
                      m1\<lparr>calls := calls m @ [(n, OnLoad)],
                         hook_manager := foldl HookManager_register (hook_manager m)
                                           (plugin_hooks (snd (run_callback on_load p))),
                         registry := PluginRegistry_register (registry m)
                                       (snd (run_callback on_load p))\<rparr>)
                else (None, m1\<lparr>calls := calls m @ [(n, OnLoad)]\<rparr>)))"
  by (cases "PluginLoader_load resolve (loader m) n path")
     (auto simp add: PluginManager_load_def Let_def get_hooks_def
       split: sum.splits prod.splits option.splits)

text \<open>
  The decorator forwards \<^verbatim>\<open>on_load\<close>, \<^verbatim>\<open>on_enable\<close> and \<^verbatim>\<open>on_disable\<close> to the class it wraps
  when the class has them, and uses \<^verbatim>\<open>pass\<close> when it has not; its \<^verbatim>\<open>on_unload\<close> is the one
  of \<^verbatim>\<open>Plugin\<close>, whatever the class has.
\<close>

lemma plugin_decorator_forwards:
  "on_load (plugin n v d c) = (case cls_on_load c of Some f \<Rightarrow> f | None \<Rightarrow> pass)"
  "on_enable (plugin n v d c) = (case cls_on_enable c of Some f \<Rightarrow> f | None \<Rightarrow> pass)"
  "on_disable (plugin n v d c) = (case cls_on_disable c of Some f \<Rightarrow> f | None \<Rightarrow> pass)"
  "on_unload (plugin n v d c) = pass"
  by (auto simp add: plugin_def Plugin_class_def fun_eq_iff split: option.splits)

subsection \<open>The concrete plugins, evaluated\<close>

lemma demo_instance_fields [simp]:
  "cls (demo_instance c s) = c"
  "state (demo_instance c s) = s"
  "plugin_context (demo_instance c s) = \<lparr>ctx_plugin_name = ''p'', config = [], data = []\<rparr>"
  "(demo_instance c s)\<lparr>state := s'\<rparr> = demo_instance c s'"
  by (simp_all add: demo_instance_def)

lemma demo_class_callbacks [simp]:
  "info_name (info (demo_class fl fe fd fu)) = ''p''"
  "init (demo_class fl fe fd fu) s ctx = \<lparr>hook_calls = [], raised = None\<rparr>"
  "on_load (demo_class fl fe fd fu) s ctx =
     \<lparr>hook_calls = [(''h'', demo_handler, NORMAL)],
      raised = (if fl then Some (Exception ''load'') else None)\<rparr>"
  "on_enable (demo_class fl fe fd fu) s ctx =
     \<lparr>hook_calls = [], raised = (if fe \<and> s = LOADED then Some (Exception ''enable'') else None)\<rparr>"
  "on_disable (demo_class fl fe fd fu) s ctx =
     \<lparr>hook_calls = [], raised = (if fd then Some (Exception ''disable'') else None)\<rparr>"
  "on_unload (demo_class fl fe fd fu) s ctx =
     \<lparr>hook_calls = [], raised = (if fu then Some (Exception ''unload'') else None)\<rparr>"
  by (simp_all add: demo_class_def Plugin_class_def pass_def PluginInfo_default_def)

lemma demo_new_Plugin:
  "new_Plugin (demo_class fl fe fd fu) \<lparr>ctx_plugin_name = ''p'', config = [], data = []\<rparr>
     = Inr ((demo_instance (demo_class fl fe fd fu) LOADED)\<lparr>plugin_hooks := []\<rparr>)"
  by (simp add: new_Plugin_def run_callback_def demo_instance_def)

lemma demo_on_load:
  "run_callback on_load ((demo_instance (demo_class fl fe fd fu) LOADED)\<lparr>plugin_hooks := []\<rparr>)
     = (if fl then Some (Exception ''load'') else None,
        demo_instance (demo_class fl fe fd fu) LOADED)"
  by (simp add: run_callback_def demo_instance_def register_hook_def demo_handler_def)

lemma demo_loaded_eq:
  "demo_loaded (demo_class False fe fd fu) =
     \<lparr>loader = \<lparr>plugin_dirs = [], loaded = [(''p'', demo_class False fe fd fu)]\<rparr>,
      registry = \<lparr>plugins = [(''p'', demo_instance (demo_class False fe fd fu) LOADED)]\<rparr>,
      hook_manager =
        \<lparr>hooks = [(''h'', plugin_hooks (demo_instance (demo_class False fe fd fu) LOADED))]\<rparr>,
      configs = [], calls = [(''p'', OnLoad)]\<rparr>"
proof -
  let ?c = "demo_class False fe fd fu"
  have l: "PluginLoader_load (demo_resolve ?c) \<lparr>plugin_dirs = [], loaded = []\<rparr> ''p'' None
           = (Some ?c, \<lparr>plugin_dirs = [], loaded = [(''p'', ?c)]\<rparr>)"
    by (simp add: PluginLoader_load_def demo_resolve_def)
  have c: "new_context (PluginManager_init []) ''p''
           = \<lparr>ctx_plugin_name = ''p'', config = [], data = []\<rparr>"
    by (simp add: new_context_def)
  have h: "foldl HookManager_register HookManager_init (plugin_hooks (demo_instance ?c LOADED))
           = \<lparr>hooks = [(''h'', plugin_hooks (demo_instance ?c LOADED))]\<rparr>"
    by (simp add: demo_instance_def HookManager_register_def HookManager_init_def hooks_get_def)
  have r: "PluginRegistry_register \<lparr>plugins = []\<rparr> (demo_instance ?c LOADED)
           = \<lparr>plugins = [(''p'', demo_instance ?c LOADED)]\<rparr>"
    by (simp add: PluginRegistry_register_def)
  have "PluginManager_load (demo_resolve ?c) (PluginManager_init []) ''p'' None
        = (Some (demo_instance ?c LOADED),
           (PluginManager_init [])
             \<lparr>loader := \<lparr>plugin_dirs = [], loaded = [(''p'', ?c)]\<rparr>,
              calls := [(''p'', OnLoad)],
              hook_manager := \<lparr>hooks = [(''h'', plugin_hooks (demo_instance ?c LOADED))]\<rparr>,
              registry := \<lparr>plugins = [(''p'', demo_instance ?c LOADED)]\<rparr>\<rparr>)"
    using load_resolved [of "demo_resolve ?c" "PluginManager_init []" "''p''" None ?c]
    by (simp add: l c demo_new_Plugin demo_on_load h r)
  then show ?thesis
    by (simp add: demo_loaded_def PluginManager_init_def)
qed

lemma demo_loaded_get:
  "PluginRegistry_get (registry (demo_loaded (demo_class False fe fd fu))) n
     = (if n = ''p'' then Some (demo_instance (demo_class False fe fd fu) LOADED) else None)"
  by (simp add: demo_loaded_eq PluginRegistry_get_def)

lemma demo_enabled_eq:
  "demo_enabled (demo_class False fe fd fu) =
     store_plugin ((demo_loaded (demo_class False fe fd fu))
                     \<lparr>calls := [(''p'', OnLoad), (''p'', OnEnable)]\<rparr>) ''p''
       (demo_instance (demo_class False fe fd fu) (if fe then ERROR else ENABLED))"
  unfolding demo_enabled_def
  by (simp add: enable_eq [where p = "demo_instance (demo_class False fe fd fu) LOADED"]
      demo_loaded_get run_callback_no_hooks)
     (simp add: demo_loaded_eq)

lemma demo_enabled_get:
  "PluginRegistry_get (registry (demo_enabled (demo_class False fe fd fu))) n
     = (if n = ''p''
        then Some (demo_instance (demo_class False fe fd fu) (if fe then ERROR else ENABLED))
        else None)"
  by (simp add: demo_enabled_eq demo_loaded_get)

lemma demo_enabled_rest:
  "hook_manager (demo_enabled (demo_class False fe fd fu))
     = \<lparr>hooks = [(''h'', plugin_hooks (demo_instance (demo_class False fe fd fu) LOADED))]\<rparr>"
  "loader (demo_enabled (demo_class False fe fd fu))
     = \<lparr>plugin_dirs = [], loaded = [(''p'', demo_class False fe fd fu)]\<rparr>"
  "calls (demo_enabled (demo_class False fe fd fu)) = [(''p'', OnLoad), (''p'', OnEnable)]"
  "configs (demo_enabled (demo_class False fe fd fu)) = []"
  by (simp_all add: demo_enabled_eq) (simp_all add: demo_loaded_eq)

lemma demo_enabled_context:
  "new_context (demo_enabled (demo_class False fe fd fu)) ''p''
     = \<lparr>ctx_plugin_name = ''p'', config = [], data = []\<rparr>"
  by (simp add: new_context_def demo_enabled_rest)

lemma demo_reloaded_facts:
  "calls (demo_reloaded (demo_class False False False False))
     = [(''p'', OnLoad), (''p'', OnEnable), (''p'', OnLoad)]"
  "state_of (demo_reloaded (demo_class False False False False)) ''p'' = Some LOADED"
  "length (hooks_get (hook_manager (demo_reloaded (demo_class False False False False))) ''h'') = 2"
proof -
  let ?c = "demo_class False False False False"
  have l: "fst (PluginLoader_load (demo_resolve ?c) (loader (demo_enabled ?c)) ''p'' None) = Some ?c"
    by (simp add: loader_load_cached demo_enabled_rest)
  have h: "length (hooks_get (hook_manager (demo_enabled ?c)) ''h'') = 1"
    by (simp add: demo_enabled_rest hooks_get_def demo_instance_def)
  have e: "demo_reloaded ?c
     = (demo_enabled ?c)
         \<lparr>loader := snd (PluginLoader_load (demo_resolve ?c) (loader (demo_enabled ?c)) ''p'' None),
          calls := calls (demo_enabled ?c) @ [(''p'', OnLoad)],
          hook_manager := foldl HookManager_register (hook_manager (demo_enabled ?c))
                            (plugin_hooks (demo_instance ?c LOADED)),
          registry := PluginRegistry_register (registry (demo_enabled ?c))
                        (demo_instance ?c LOADED)\<rparr>"
    unfolding demo_reloaded_def
    by (simp add: load_resolved [OF l] demo_enabled_context demo_new_Plugin demo_on_load)
  show "calls (demo_reloaded ?c) = [(''p'', OnLoad), (''p'', OnEnable), (''p'', OnLoad)]"
    by (simp add: e demo_enabled_rest)
  show "state_of (demo_reloaded ?c) ''p'' = Some LOADED"
    by (simp add: e state_of_def PluginRegistry_get_def PluginRegistry_register_def update_conv')
  show "length (hooks_get (hook_manager (demo_reloaded ?c)) ''h'') = 2"
    by (simp add: e length_hooks_get_foldl_register h) (simp add: demo_instance_def)
qed

lemma demo_class_bad_init_fields [simp]:
  "info_name (info demo_class_bad_init) = ''p''"
  "init demo_class_bad_init s ctx = \<lparr>hook_calls = [], raised = Some (Exception ''init'')\<rparr>"
  by (simp_all add: demo_class_bad_init_def)

lemma demo_loaded_failed:
  "demo_loaded demo_class_bad_init
     = (PluginManager_init [])
         \<lparr>loader := \<lparr>plugin_dirs = [], loaded = [(''p'', demo_class_bad_init)]\<rparr>\<rparr>"
  "demo_loaded (demo_class True fe fd fu)
     = (PluginManager_init [])
         \<lparr>loader := \<lparr>plugin_dirs = [], loaded = [(''p'', demo_class True fe fd fu)]\<rparr>,
          calls := [(''p'', OnLoad)]\<rparr>"
proof -
  have l: "PluginLoader_load (demo_resolve c) \<lparr>plugin_dirs = [], loaded = []\<rparr> ''p'' None
           = (Some c, \<lparr>plugin_dirs = [], loaded = [(''p'', c)]\<rparr>)" for c :: "int PluginClass"
    by (simp add: PluginLoader_load_def demo_resolve_def)
  show "demo_loaded demo_class_bad_init
     = (PluginManager_init [])
         \<lparr>loader := \<lparr>plugin_dirs = [], loaded = [(''p'', demo_class_bad_init)]\<rparr>\<rparr>"
    unfolding demo_loaded_def
    using load_resolved [of "demo_resolve demo_class_bad_init" "PluginManager_init []"
        "''p''" None demo_class_bad_init]
    by (simp add: l new_Plugin_eq)
  show "demo_loaded (demo_class True fe fd fu)
     = (PluginManager_init [])
         \<lparr>loader := \<lparr>plugin_dirs = [], loaded = [(''p'', demo_class True fe fd fu)]\<rparr>,
          calls := [(''p'', OnLoad)]\<rparr>"
    unfolding demo_loaded_def
    using load_resolved [of "demo_resolve (demo_class True fe fd fu)" "PluginManager_init []"
        "''p''" None "demo_class True fe fd fu"]
    by (simp add: l new_Plugin_eq run_callback_def)
qed

lemma demo_reloaded_hooks:
  "hooks_get (hook_manager (demo_enabled (demo_class False fe fd fu))) ''h''
     = plugin_hooks (demo_instance (demo_class False fe fd fu) LOADED)"
  by (simp add: demo_enabled_rest hooks_get_def)

lemma demo_q_instance_fields [simp]:
  "cls (demo_q_instance c s) = c"
  "state (demo_q_instance c s) = s"
  "plugin_context (demo_q_instance c s) = \<lparr>ctx_plugin_name = ''q'', config = [], data = []\<rparr>"
  "plugin_hooks (demo_q_instance c s) = plugin_hooks (demo_instance c LOADED)"
  "(demo_q_instance c s)\<lparr>state := s'\<rparr> = demo_q_instance c s'"
  by (simp_all add: demo_q_instance_def demo_instance_def)

lemma demo_q_loaded_eq:
  "demo_q_loaded (demo_class False fe fd fu) =
     \<lparr>loader = \<lparr>plugin_dirs = [], loaded = [(''q'', demo_class False fe fd fu)]\<rparr>,
      registry = \<lparr>plugins = [(''p'', demo_q_instance (demo_class False fe fd fu) LOADED)]\<rparr>,
      hook_manager =
        \<lparr>hooks = [(''h'', plugin_hooks (demo_instance (demo_class False fe fd fu) LOADED))]\<rparr>,
      configs = [], calls = [(''q'', OnLoad)]\<rparr>"
proof -
  let ?c = "demo_class False fe fd fu"
  have l: "PluginLoader_load (demo_resolve_q ?c) \<lparr>plugin_dirs = [], loaded = []\<rparr> ''q'' None
           = (Some ?c, \<lparr>plugin_dirs = [], loaded = [(''q'', ?c)]\<rparr>)"
    by (simp add: PluginLoader_load_def demo_resolve_q_def)
  have c: "new_context (PluginManager_init []) ''q''
           = \<lparr>ctx_plugin_name = ''q'', config = [], data = []\<rparr>"
    by (simp add: new_context_def)
  have n: "new_Plugin ?c \<lparr>ctx_plugin_name = ''q'', config = [], data = []\<rparr>
           = Inr ((demo_q_instance ?c LOADED)\<lparr>plugin_hooks := []\<rparr>)"
    by (simp add: new_Plugin_eq demo_q_instance_def demo_instance_def)
  have o: "run_callback on_load ((demo_q_instance ?c LOADED)\<lparr>plugin_hooks := []\<rparr>)
           = (None, demo_q_instance ?c LOADED)"
    by (simp add: run_callback_def foldl_register_hook_eq)
       (simp add: demo_q_instance_def demo_instance_def demo_handler_def)
  have h: "foldl HookManager_register HookManager_init (plugin_hooks (demo_instance ?c LOADED))
           = \<lparr>hooks = [(''h'', plugin_hooks (demo_instance ?c LOADED))]\<rparr>"
    by (simp add: demo_instance_def HookManager_register_def HookManager_init_def hooks_get_def)
  have r: "PluginRegistry_register \<lparr>plugins = []\<rparr> (demo_q_instance ?c LOADED)
           = \<lparr>plugins = [(''p'', demo_q_instance ?c LOADED)]\<rparr>"
    by (simp add: PluginRegistry_register_def)
  have "PluginManager_load (demo_resolve_q ?c) (PluginManager_init []) ''q'' None
        = (Some (demo_q_instance ?c LOADED),
           (PluginManager_init [])
             \<lparr>loader := \<lparr>plugin_dirs = [], loaded = [(''q'', ?c)]\<rparr>,
              calls := [(''q'', OnLoad)],
              hook_manager := \<lparr>hooks = [(''h'', plugin_hooks (demo_instance ?c LOADED))]\<rparr>,
              registry := \<lparr>plugins = [(''p'', demo_q_instance ?c LOADED)]\<rparr>\<rparr>)"
    using load_resolved [of "demo_resolve_q ?c" "PluginManager_init []" "''q''" None ?c]
    by (simp add: l c n o h r)
  then show ?thesis
    by (simp add: demo_q_loaded_def PluginManager_init_def)
qed

lemma demo_q_enabled_eq:
  "demo_q_enabled (demo_class False False fd fu) =
     \<lparr>loader = \<lparr>plugin_dirs = [], loaded = [(''q'', demo_class False False fd fu)]\<rparr>,
      registry = \<lparr>plugins = [(''p'', demo_q_instance (demo_class False False fd fu) ENABLED)]\<rparr>,
      hook_manager =
        \<lparr>hooks = [(''h'', plugin_hooks (demo_instance (demo_class False False fd fu) LOADED))]\<rparr>,
      configs = [], calls = [(''q'', OnLoad), (''p'', OnEnable)]\<rparr>"
proof -
  let ?c = "demo_class False False fd fu"
  have g: "PluginRegistry_get (registry (demo_q_loaded ?c)) ''p''
             = Some (demo_q_instance ?c LOADED)"
    by (simp add: demo_q_loaded_eq PluginRegistry_get_def)
  show ?thesis
    unfolding demo_q_enabled_def
    by (simp add: enable_eq [OF g] run_callback_no_hooks)
       (simp add: demo_q_loaded_eq store_plugin_def)
qed

subsection \<open>The transitions of enable and disable\<close>

text \<open>
  Claim C1 says that the state \<^verbatim>\<open>disabled\<close> is entered only from \<^verbatim>\<open>enabled\<close>, the state
  \<^verbatim>\<open>enabled\<close> only from \<^verbatim>\<open>loaded\<close> or \<^verbatim>\<open>disabled\<close>, and that \<^verbatim>\<open>enable\<close> and \<^verbatim>\<open>disable\<close> do not
  move a plugin out of \<^verbatim>\<open>error\<close>. The code does not hold to it. Take the plugin \<open>p\<close> whose
  \<^verbatim>\<open>on_enable\<close> raises on the first attempt: after \<^verbatim>\<open>load\<close> it is \<^verbatim>\<open>loaded\<close> and \<^verbatim>\<open>disable\<close>
  makes it \<^verbatim>\<open>disabled\<close>; after \<^verbatim>\<open>load\<close> and a failed \<^verbatim>\<open>enable\<close> it is in \<^verbatim>\<open>error\<close>, from where
  \<^verbatim>\<open>disable\<close> makes it \<^verbatim>\<open>disabled\<close> and a second \<^verbatim>\<open>enable\<close> makes it \<^verbatim>\<open>enabled\<close>.
\<close>

theorem C1_counterexample:
  "state_of (demo_loaded (demo_class False True False False)) ''p'' = Some LOADED
   \<and> state_of (snd (PluginManager_disable (demo_loaded (demo_class False True False False)) ''p''))
         ''p'' = Some DISABLED
   \<and> state_of (demo_enabled (demo_class False True False False)) ''p'' = Some ERROR
   \<and> state_of (snd (PluginManager_disable (demo_enabled (demo_class False True False False)) ''p''))
         ''p'' = Some DISABLED
   \<and> state_of (snd (PluginManager_enable (demo_enabled (demo_class False True False False)) ''p''))
         ''p'' = Some ENABLED"
proof -
  let ?c = "demo_class False True False False"
  have a: "state_of (demo_loaded ?c) ''p'' = Some LOADED"
    and b: "state_of (demo_enabled ?c) ''p'' = Some ERROR"
    by (simp_all add: state_of_def demo_loaded_get demo_enabled_get)
  have c: "state_of (snd (PluginManager_disable (demo_loaded ?c) ''p'')) ''p'' = Some DISABLED"
    by (simp add: disable_eq [where p = "demo_instance ?c LOADED"] demo_loaded_get)
  have d: "state_of (snd (PluginManager_disable (demo_enabled ?c) ''p'')) ''p'' = Some DISABLED"
    by (simp add: disable_eq [where p = "demo_instance ?c ERROR"] demo_enabled_get)
  have e: "state_of (snd (PluginManager_enable (demo_enabled ?c) ''p'')) ''p'' = Some ENABLED"
    by (simp add: enable_eq [where p = "demo_instance ?c ERROR"] demo_enabled_get)
  from a b c d e show ?thesis by simp
qed

text \<open>
  Claim C1, as the code has it. \<^verbatim>\<open>enable\<close> and \<^verbatim>\<open>disable\<close> on a name that is not in the
  catalog return failure and change nothing. On a plugin in the catalog, \<^verbatim>\<open>enable\<close> keeps
  the state \<^verbatim>\<open>enabled\<close>, and from every other state (\<^verbatim>\<open>loaded\<close>, \<^verbatim>\<open>disabled\<close> or \<^verbatim>\<open>error\<close>
  alike) it leads to \<^verbatim>\<open>enabled\<close> when \<^verbatim>\<open>on_enable\<close> returns and to \<^verbatim>\<open>error\<close> when it raises;
  \<^verbatim>\<open>disable\<close> keeps the state \<^verbatim>\<open>disabled\<close>, and from every other state (\<^verbatim>\<open>loaded\<close>,
  \<^verbatim>\<open>enabled\<close> or \<^verbatim>\<open>error\<close> alike) it leads to \<^verbatim>\<open>disabled\<close> when \<^verbatim>\<open>on_disable\<close> returns and
  leaves the state as it is when it raises. Neither touches the state of a plugin of
  another name.
\<close>

theorem C1_enable_disable_transitions:
  "(PluginRegistry_get (registry m) n = None \<longrightarrow>
      PluginManager_enable m n = (False, m) \<and> PluginManager_disable m n = (False, m))
   \<and> (\<forall>p. PluginRegistry_get (registry m) n = Some p \<longrightarrow>
         state_of (snd (PluginManager_enable m n)) n
           = Some (if state p = ENABLED then ENABLED
                   else if raised (on_enable (cls p) (state p) (plugin_context p)) = None
                        then ENABLED else ERROR)
         \<and> state_of (snd (PluginManager_disable m n)) n
           = Some (if state p = DISABLED then DISABLED
                   else if raised (on_disable (cls p) (state p) (plugin_context p)) = None
                        then DISABLED else state p))
   \<and> (\<forall>n'. n' \<noteq> n \<longrightarrow>
         state_of (snd (PluginManager_enable m n)) n' = state_of m n'
         \<and> state_of (snd (PluginManager_disable m n)) n' = state_of m n')"
proof (intro conjI allI impI)
  assume "PluginRegistry_get (registry m) n = None"
  then show "PluginManager_enable m n = (False, m)"
    and "PluginManager_disable m n = (False, m)"
    by (simp_all add: PluginManager_enable_def PluginManager_disable_def)
next
  fix p assume get: "PluginRegistry_get (registry m) n = Some p"
  show "state_of (snd (PluginManager_enable m n)) n
           = Some (if state p = ENABLED then ENABLED
                   else if raised (on_enable (cls p) (state p) (plugin_context p)) = None
                        then ENABLED else ERROR)"
  proof (cases "state p = ENABLED")
    case True
    then show ?thesis using get by (simp add: PluginManager_enable_def state_of_def)
  next
    case False
    then show ?thesis by (simp add: enable_eq [OF get])
  qed
  show "state_of (snd (PluginManager_disable m n)) n
           = Some (if state p = DISABLED then DISABLED
                   else if raised (on_disable (cls p) (state p) (plugin_context p)) = None
                        then DISABLED else state p)"
  proof (cases "state p = DISABLED")
    case True
    then show ?thesis using get by (simp add: PluginManager_disable_def state_of_def)
  next
    case False
    then show ?thesis by (simp add: disable_eq [OF get])
  qed
next
  fix n' assume "n' \<noteq> n"
  then show "state_of (snd (PluginManager_enable m n)) n' = state_of m n'"
    and "state_of (snd (PluginManager_disable m n)) n' = state_of m n'"
    by (simp_all add: enable_other disable_other)
qed

text \<open>
  The statement on the manager that has loaded \<open>p\<close>, for the name \<open>p\<close> and for a name
  \<open>q\<close> that is not in the catalog.
\<close>

theorem C1_enable_disable_transitions_witness:
  "PluginRegistry_get (registry (demo_loaded (demo_class False True False False))) ''q'' = None
   \<and> PluginManager_enable (demo_loaded (demo_class False True False False)) ''q''
       = (False, demo_loaded (demo_class False True False False))
   \<and> PluginRegistry_get (registry (demo_loaded (demo_class False True False False))) ''p''
       = Some (demo_instance (demo_class False True False False) LOADED)
   \<and> state_of (snd (PluginManager_enable (demo_loaded (demo_class False True False False)) ''p''))
         ''p'' = Some ERROR
   \<and> state_of (snd (PluginManager_disable (demo_loaded (demo_class False True False False)) ''p''))
         ''p'' = Some DISABLED
   \<and> ''p'' \<noteq> ''q''
   \<and> state_of (snd (PluginManager_enable (demo_loaded (demo_class False True False False)) ''q''))
         ''p'' = Some LOADED"
proof -
  let ?c = "demo_class False True False False"
  have q: "PluginRegistry_get (registry (demo_loaded ?c)) ''q'' = None"
    and p: "PluginRegistry_get (registry (demo_loaded ?c)) ''p'' = Some (demo_instance ?c LOADED)"
    by (simp_all add: demo_loaded_get)
  have s: "state_of (demo_loaded ?c) ''p'' = Some LOADED"
    by (simp add: state_of_def p)
  note t = C1_enable_disable_transitions [of "demo_loaded ?c"]
  from t [of "''q''"] q
  have 1: "PluginManager_enable (demo_loaded ?c) ''q'' = (False, demo_loaded ?c)"
    by simp
  from t [of "''p''"] p
  have 2: "state_of (snd (PluginManager_enable (demo_loaded ?c) ''p'')) ''p'' = Some ERROR"
    and 3: "state_of (snd (PluginManager_disable (demo_loaded ?c) ''p'')) ''p'' = Some DISABLED"
    by simp_all
  have ne: "''p'' \<noteq> ''q''" by simp
  from t [of "''q''"] ne s
  have 4: "state_of (snd (PluginManager_enable (demo_loaded ?c) ''q'')) ''p'' = Some LOADED"
    by simp
  from q p 1 2 3 4 ne show ?thesis by simp
qed

subsection \<open>Loading a name again\<close>

text \<open>
  Claim C2 says that \<^verbatim>\<open>load\<close> of a name already loaded is a no-op. It is not: on the
  manager that has loaded and enabled \<open>p\<close>, whose type is in the loader's cache, a second
  \<^verbatim>\<open>load("p")\<close> invokes \<^verbatim>\<open>on_load\<close> again, leaves two registrations for the hook \<open>h\<close>
  where there was one, and puts a new instance in state \<^verbatim>\<open>loaded\<close> in the place of the
  enabled one.
\<close>

theorem C2_counterexample:
  "map_of (loaded (loader (demo_enabled (demo_class False False False False)))) ''p''
     = Some (demo_class False False False False)
   \<and> calls (demo_enabled (demo_class False False False False))
       = [(''p'', OnLoad), (''p'', OnEnable)]
   \<and> state_of (demo_enabled (demo_class False False False False)) ''p'' = Some ENABLED
   \<and> length (hooks_get (hook_manager (demo_enabled (demo_class False False False False))) ''h'') = 1
   \<and> calls (demo_reloaded (demo_class False False False False))
       = [(''p'', OnLoad), (''p'', OnEnable), (''p'', OnLoad)]
   \<and> state_of (demo_reloaded (demo_class False False False False)) ''p'' = Some LOADED
   \<and> length (hooks_get (hook_manager (demo_reloaded (demo_class False False False False))) ''h'') = 2"
proof -
  let ?c = "demo_class False False False False"
  have 1: "map_of (loaded (loader (demo_enabled ?c))) ''p'' = Some ?c"
    and 2: "calls (demo_enabled ?c) = [(''p'', OnLoad), (''p'', OnEnable)]"
    by (simp_all add: demo_enabled_rest)
  have 3: "state_of (demo_enabled ?c) ''p'' = Some ENABLED"
    by (simp add: state_of_def demo_enabled_get)
  have 4: "length (hooks_get (hook_manager (demo_enabled ?c)) ''h'') = 1"
    by (simp add: demo_enabled_rest hooks_get_def demo_instance_def)
  from 1 2 3 4 demo_reloaded_facts show ?thesis by simp
qed

text \<open>
  Claim C2, as the code has it. When the loader's cache holds a type for the name,
  \<^verbatim>\<open>PluginManager.load\<close> does not resolve the type again: its result is the same for
  every resolver and every path, and the cache is left as it was. It is not a no-op.
  It constructs a new instance of the cached type, in state \<^verbatim>\<open>loaded\<close> and with a new
  context; when the constructor raises, it returns \<^verbatim>\<open>None\<close> and changes nothing. It then
  invokes \<^verbatim>\<open>on_load\<close> on the new instance; when that raises, it returns \<^verbatim>\<open>None\<close>. When
  neither raises it returns the new instance \<open>p'\<close>, whose hooks are those the constructor
  and \<^verbatim>\<open>on_load\<close> have registered, owned by the name the \<^verbatim>\<open>info\<close> of the type gives; it
  puts \<open>p'\<close> in the catalog under that name, replacing the instance held there, and for
  every hook name the stored list becomes the old list with the hooks of \<open>p'\<close> for
  that name added and sorted again: hooks registered by an earlier load of the name stay
  and are there twice.
\<close>

theorem C2_reload_of_cached_name:
  assumes "map_of (loaded (loader m)) n = Some c"
    and "ctx = new_context m n"
    and "p' = \<lparr>cls = c, plugin_context = ctx, state = LOADED,
               plugin_hooks =
                 map (\<lambda>(hn, f, pr). \<lparr>name = hn, handler = f, plugin_name = info_name (info c),
                                       priority = pr, async_handler = iscoroutinefunction f\<rparr>)
                   (hook_calls (init c LOADED ctx) @ hook_calls (on_load c LOADED ctx))\<rparr>"
  shows "PluginManager_load resolve m n path = PluginManager_load resolve' m n path'
       \<and> loader (snd (PluginManager_load resolve m n path)) = loader m
       \<and> (raised (init c LOADED ctx) \<noteq> None \<longrightarrow>
            PluginManager_load resolve m n path = (None, m))
       \<and> (raised (init c LOADED ctx) = None \<and> raised (on_load c LOADED ctx) \<noteq> None \<longrightarrow>
            PluginManager_load resolve m n path = (None, m\<lparr>calls := calls m @ [(n, OnLoad)]\<rparr>))
       \<and> (raised (init c LOADED ctx) = None \<and> raised (on_load c LOADED ctx) = None \<longrightarrow>
            PluginManager_load resolve m n path
              = (Some p',
                 m\<lparr>calls := calls m @ [(n, OnLoad)],
                   hook_manager := foldl HookManager_register (hook_manager m) (plugin_hooks p'),
                   registry := PluginRegistry_register (registry m) p'\<rparr>)
            \<and> PluginRegistry_get (registry (snd (PluginManager_load resolve m n path)))
                 (info_name (info c)) = Some p'
            \<and> (\<forall>h. hooks_get (hook_manager (snd (PluginManager_load resolve m n path))) h
                   = (if filter (\<lambda>r. name r = h) (plugin_hooks p') = []
                      then hooks_get (hook_manager m) h
                      else sort_key (\<lambda>r. priority_value (priority r))
                             (hooks_get (hook_manager m) h
                              @ filter (\<lambda>r. name r = h) (plugin_hooks p')))
                 \<and> length (hooks_get (hook_manager (snd (PluginManager_load resolve m n path))) h)
                   = length (hooks_get (hook_manager m) h)
                     + length (filter (\<lambda>r. name r = h) (plugin_hooks p'))))"
proof -
  have l: "PluginLoader_load r (loader m) n q = (Some c, loader m)" for r q
    using assms(1) by (rule loader_load_cached)
  have e: "PluginManager_load r m n q
     = (if raised (init c LOADED ctx) \<noteq> None then (None, m)
        else if raised (on_load c LOADED ctx) \<noteq> None
        then (None, m\<lparr>calls := calls m @ [(n, OnLoad)]\<rparr>)
        else (Some p',
              m\<lparr>calls := calls m @ [(n, OnLoad)],
                hook_manager := foldl HookManager_register (hook_manager m) (plugin_hooks p'),
                registry := PluginRegistry_register (registry m) p'\<rparr>))" for r q
    using load_resolved [of r m n q c]
    by (auto simp add: l new_Plugin_eq assms(2,3) run_callback_def Let_def foldl_register_hook_eq)
  have 1: "PluginManager_load resolve m n path = PluginManager_load resolve' m n path'"
    by (simp add: e)
  have 2: "loader (snd (PluginManager_load resolve m n path)) = loader m"
    by (simp add: e)
  have 3: "PluginRegistry_get (registry (snd (PluginManager_load resolve m n path)))
             (info_name (info c)) = Some p'"
    if "raised (init c LOADED ctx) = None" "raised (on_load c LOADED ctx) = None"
    using that
    by (simp add: e PluginRegistry_register_def PluginRegistry_get_def update_conv' assms(3))
  have 4: "hooks_get (hook_manager (snd (PluginManager_load resolve m n path))) h
             = (if filter (\<lambda>r. name r = h) (plugin_hooks p') = []
                then hooks_get (hook_manager m) h
                else sort_key (\<lambda>r. priority_value (priority r))
                       (hooks_get (hook_manager m) h @ filter (\<lambda>r. name r = h) (plugin_hooks p')))"
    if "raised (init c LOADED ctx) = None" "raised (on_load c LOADED ctx) = None" for h
    using that by (simp add: e hooks_get_foldl_register_gen)
  have 5: "length (hooks_get (hook_manager (snd (PluginManager_load resolve m n path))) h)
             = length (hooks_get (hook_manager m) h)
               + length (filter (\<lambda>r. name r = h) (plugin_hooks p'))"
    if "raised (init c LOADED ctx) = None" "raised (on_load c LOADED ctx) = None" for h
    using that by (simp add: e length_hooks_get_foldl_register)
  have 6: "raised (init c LOADED ctx) \<noteq> None \<Longrightarrow>
           PluginManager_load resolve m n path = (None, m)"
    and 7: "raised (init c LOADED ctx) = None \<and> raised (on_load c LOADED ctx) \<noteq> None \<Longrightarrow>
           PluginManager_load resolve m n path = (None, m\<lparr>calls := calls m @ [(n, OnLoad)]\<rparr>)"
    and 8: "raised (init c LOADED ctx) = None \<and> raised (on_load c LOADED ctx) = None \<Longrightarrow>
           PluginManager_load resolve m n path
              = (Some p',
                 m\<lparr>calls := calls m @ [(n, OnLoad)],
                   hook_manager := foldl HookManager_register (hook_manager m) (plugin_hooks p'),
                   registry := PluginRegistry_register (registry m) p'\<rparr>)"
    by (simp_all add: e)
  from 1 2 3 4 5 6 7 8 show ?thesis by blast
qed

text \<open>
  The statement on three managers whose cache holds the type of \<open>p\<close>. On the manager
  that has loaded and enabled \<open>p\<close>, an import that finds nothing, asked with a path,
  gives the same result as the import that finds \<open>p\<close>; the new instance is in the
  catalog, and the hook \<open>h\<close> has two registrations where it had one. After a load
  that failed in the constructor, and after a load that failed in \<^verbatim>\<open>on_load\<close>, the type is
  cached all the same, and a second load fails in the same way.
\<close>

theorem C2_reload_of_cached_name_witness:
  "map_of (loaded (loader (demo_enabled (demo_class False False False False)))) ''p''
     = Some (demo_class False False False False)
   \<and> PluginManager_load (demo_resolve (demo_class False False False False))
        (demo_enabled (demo_class False False False False)) ''p'' None
     = PluginManager_load (\<lambda>n path. None)
        (demo_enabled (demo_class False False False False)) ''p'' (Some ''plugins/p.py'')
   \<and> fst (PluginManager_load (demo_resolve (demo_class False False False False))
        (demo_enabled (demo_class False False False False)) ''p'' None)
     = Some (demo_instance (demo_class False False False False) LOADED)
   \<and> PluginRegistry_get (registry (demo_reloaded (demo_class False False False False))) ''p''
     = Some (demo_instance (demo_class False False False False) LOADED)
   \<and> hooks_get (hook_manager (demo_enabled (demo_class False False False False))) ''h''
     = [\<lparr>name = ''h'', handler = demo_handler, plugin_name = ''p'', priority = NORMAL,
         async_handler = False\<rparr>]
   \<and> hooks_get (hook_manager (demo_reloaded (demo_class False False False False))) ''h''
     = [\<lparr>name = ''h'', handler = demo_handler, plugin_name = ''p'', priority = NORMAL,
         async_handler = False\<rparr>,
        \<lparr>name = ''h'', handler = demo_handler, plugin_name = ''p'', priority = NORMAL,
         async_handler = False\<rparr>]
   \<and> map_of (loaded (loader (demo_loaded demo_class_bad_init))) ''p'' = Some demo_class_bad_init
   \<and> PluginManager_load (\<lambda>n path. None) (demo_loaded demo_class_bad_init) ''p'' None
     = (None, demo_loaded demo_class_bad_init)
   \<and> map_of (loaded (loader (demo_loaded (demo_class True False False False)))) ''p''
     = Some (demo_class True False False False)
   \<and> PluginManager_load (\<lambda>n path. None) (demo_loaded (demo_class True False False False)) ''p'' None
     = (None, (demo_loaded (demo_class True False False False))
                \<lparr>calls := [(''p'', OnLoad), (''p'', OnLoad)]\<rparr>)"
proof -
  let ?c = "demo_class False False False False"
  let ?m = "demo_enabled ?c"
  let ?ctx = "\<lparr>ctx_plugin_name = ''p'', config = [], data = []\<rparr> :: int PluginContext"
  let ?r = "\<lparr>name = ''h'', handler = demo_handler, plugin_name = ''p'', priority = NORMAL,
             async_handler = False\<rparr> :: int HookRegistration"
  have c: "map_of (loaded (loader ?m)) ''p'' = Some ?c"
    by (simp add: demo_enabled_rest)
  have x: "?ctx = new_context ?m ''p''"
    by (simp add: demo_enabled_context)
  have p: "demo_instance ?c LOADED
     = \<lparr>cls = ?c, plugin_context = ?ctx, state = LOADED,
        plugin_hooks =
          map (\<lambda>(hn, f, pr). \<lparr>name = hn, handler = f, plugin_name = info_name (info ?c),
                                priority = pr, async_handler = iscoroutinefunction f\<rparr>)
            (hook_calls (init ?c LOADED ?ctx) @ hook_calls (on_load ?c LOADED ?ctx))\<rparr>"
    by (simp add: demo_instance_def demo_handler_def)
  have h: "hooks_get (hook_manager ?m) ''h'' = [?r]"
    by (simp add: demo_reloaded_hooks demo_instance_def)
  have ph: "plugin_hooks (demo_instance ?c LOADED) = [?r]"
    by (simp add: demo_instance_def)
  note t = C2_reload_of_cached_name [OF c x p, of "demo_resolve ?c" None "\<lambda>n path. None"
      "Some ''plugins/p.py''"]
  have r: "raised (init ?c LOADED ?ctx) = None \<and> raised (on_load ?c LOADED ?ctx) = None"
    by simp
  note s = t [THEN conjunct2, THEN conjunct2, THEN conjunct2, THEN conjunct2, rule_format, OF r]
  from t have 1: "PluginManager_load (demo_resolve ?c) ?m ''p'' None
     = PluginManager_load (\<lambda>n path. None) ?m ''p'' (Some ''plugins/p.py'')"
    by (rule conjunct1)
  from s [THEN conjunct1] have 2: "fst (PluginManager_load (demo_resolve ?c) ?m ''p'' None)
     = Some (demo_instance ?c LOADED)"
    by simp
  from s [THEN conjunct2, THEN conjunct1]
  have 3: "PluginRegistry_get (registry (demo_reloaded ?c)) ''p''
     = Some (demo_instance ?c LOADED)"
    unfolding demo_reloaded_def by simp
  from s [THEN conjunct2, THEN conjunct2, rule_format, of "''h''", THEN conjunct1]
  have "hooks_get (hook_manager (demo_reloaded ?c)) ''h''
     = sort_key (\<lambda>r. priority_value (priority r)) ([?r] @ [?r])"
    unfolding demo_reloaded_def by (simp add: h ph)
  then have 4: "hooks_get (hook_manager (demo_reloaded ?c)) ''h'' = [?r, ?r]"
    by simp
  let ?b = "demo_class_bad_init"
  let ?mb = "demo_loaded ?b"
  have cb: "map_of (loaded (loader ?mb)) ''p'' = Some ?b"
    by (simp add: demo_loaded_failed)
  have 5: "PluginManager_load (\<lambda>n path. None) ?mb ''p'' None = (None, ?mb)"
    using C2_reload_of_cached_name [OF cb refl refl, of "\<lambda>n path. None" None "\<lambda>n path. None" None]
    by simp
  let ?l = "demo_class True False False False"
  let ?ml = "demo_loaded ?l"
  have cl: "map_of (loaded (loader ?ml)) ''p'' = Some ?l"
    by (simp add: demo_loaded_failed)
  have cc: "calls ?ml = [(''p'', OnLoad)]"
    by (simp add: demo_loaded_failed)
  have 6: "PluginManager_load (\<lambda>n path. None) ?ml ''p'' None
     = (None, ?ml\<lparr>calls := [(''p'', OnLoad), (''p'', OnLoad)]\<rparr>)"
    using C2_reload_of_cached_name [OF cl refl refl, of "\<lambda>n path. None" None "\<lambda>n path. None" None]
    by (simp add: cc)
  from c 1 2 3 h 4 cb 5 cl 6 show ?thesis by simp
qed

subsection \<open>The decorator\<close>

text \<open>
  Claim C3 says that each of the four callbacks the wrapped class supplies is invoked by
  the corresponding method of the wrapper. The class \<open>demo_plain\<close> supplies \<^verbatim>\<open>on_unload\<close>,
  which raises; the \<^verbatim>\<open>on_unload\<close> of the type the decorator makes of it returns without
  doing anything: the callback of the class is never invoked. (The other three callbacks
  are forwarded, see \<open>plugin_decorator_forwards\<close>.)
\<close>

theorem C3_on_unload_not_forwarded:
  "cls_on_unload demo_plain = Some demo_on_unload
   \<and> raised (demo_on_unload LOADED (new_context (PluginManager_init []) ''p''))
       = Some (Exception ''unload'')
   \<and> on_unload (plugin ''p'' ''0.1.0'' [] demo_plain) LOADED
       (new_context (PluginManager_init []) ''p'')
     = \<lparr>hook_calls = [], raised = None\<rparr>"
  by (simp add: demo_plain_def demo_on_unload_def plugin_decorator_forwards pass_def)

subsection \<open>A load that fails\<close>

text \<open>
  Claim C8. When \<^verbatim>\<open>PluginManager.load\<close> fails, because the loader finds no type for the
  name, or because the constructor raises, or because \<^verbatim>\<open>on_load\<close> raises, it returns
  \<^verbatim>\<open>None\<close>, and the catalog and the hook registry are what they were before the call.
\<close>

theorem C8_failed_load_changes_nothing:
  assumes "fst (PluginLoader_load resolve (loader m) n path) = None
         \<or> (\<exists>c e. fst (PluginLoader_load resolve (loader m) n path) = Some c
                \<and> new_Plugin c (new_context m n) = Inl e)
         \<or> (\<exists>c p e. fst (PluginLoader_load resolve (loader m) n path) = Some c
                \<and> new_Plugin c (new_context m n) = Inr p
                \<and> fst (run_callback on_load p) = Some e)"
  shows "fst (PluginManager_load resolve m n path) = None
       \<and> registry (snd (PluginManager_load resolve m n path)) = registry m
       \<and> hook_manager (snd (PluginManager_load resolve m n path)) = hook_manager m"
  using assms
proof (elim disjE exE conjE)
  assume "fst (PluginLoader_load resolve (loader m) n path) = None"
  then show ?thesis by (simp add: load_unresolved)
next
  fix c e
  assume "fst (PluginLoader_load resolve (loader m) n path) = Some c"
    "new_Plugin c (new_context m n) = Inl e"
  then show ?thesis by (simp add: load_resolved)
next
  fix c p e
  assume "fst (PluginLoader_load resolve (loader m) n path) = Some c"
    "new_Plugin c (new_context m n) = Inr p" "fst (run_callback on_load p) = Some e"
  then show ?thesis by (simp add: load_resolved)
qed

text \<open>
  The three causes of failure: a name the import does not find, on a manager that holds
  a plugin and a hook; a type whose constructor raises; a type whose \<^verbatim>\<open>on_load\<close> raises
  after it has registered a hook on the instance.
\<close>

theorem C8_failed_load_changes_nothing_witness:
  "fst (PluginManager_load (demo_resolve (demo_class False False False False))
          (demo_enabled (demo_class False False False False)) ''q'' None) = None
   \<and> registry (snd (PluginManager_load (demo_resolve (demo_class False False False False))
          (demo_enabled (demo_class False False False False)) ''q'' None))
     = registry (demo_enabled (demo_class False False False False))
   \<and> hook_manager (snd (PluginManager_load (demo_resolve (demo_class False False False False))
          (demo_enabled (demo_class False False False False)) ''q'' None))
     = hook_manager (demo_enabled (demo_class False False False False))
   \<and> fst (PluginManager_load (demo_resolve demo_class_bad_init) (PluginManager_init []) ''p'' None)
     = None
   \<and> registry (snd (PluginManager_load (demo_resolve demo_class_bad_init)
          (PluginManager_init []) ''p'' None)) = \<lparr>plugins = []\<rparr>
   \<and> hook_manager (snd (PluginManager_load (demo_resolve demo_class_bad_init)
          (PluginManager_init []) ''p'' None)) = \<lparr>hooks = []\<rparr>
   \<and> fst (PluginManager_load (demo_resolve (demo_class True False False False))
          (PluginManager_init []) ''p'' None) = None
   \<and> registry (snd (PluginManager_load (demo_resolve (demo_class True False False False))
          (PluginManager_init []) ''p'' None)) = \<lparr>plugins = []\<rparr>
   \<and> hook_manager (snd (PluginManager_load (demo_resolve (demo_class True False False False))
          (PluginManager_init []) ''p'' None)) = \<lparr>hooks = []\<rparr>"
proof -
  let ?c = "demo_class False False False False"
  let ?cl = "demo_class True False False False"
  let ?ctx = "\<lparr>ctx_plugin_name = ''p'', config = [], data = []\<rparr> :: int PluginContext"
  have c0: "new_context (PluginManager_init []) ''p'' = ?ctx"
    by (simp add: new_context_def)
  have a: "fst (PluginLoader_load (demo_resolve ?c) (loader (demo_enabled ?c)) ''q'' None) = None"
    by (simp add: PluginLoader_load_def demo_enabled_rest demo_resolve_def)
  have b1: "fst (PluginLoader_load (demo_resolve demo_class_bad_init)
                   (loader (PluginManager_init [])) ''p'' None) = Some demo_class_bad_init"
    by (simp add: PluginLoader_load_def demo_resolve_def)
  have b2: "new_Plugin demo_class_bad_init (new_context (PluginManager_init []) ''p'')
              = Inl (Exception ''init'')"
    by (simp add: c0 new_Plugin_def run_callback_def demo_class_bad_init_def)
  have c1: "fst (PluginLoader_load (demo_resolve ?cl) (loader (PluginManager_init [])) ''p'' None)
              = Some ?cl"
    by (simp add: PluginLoader_load_def demo_resolve_def)
  have c2: "new_Plugin ?cl (new_context (PluginManager_init []) ''p'')
              = Inr ((demo_instance ?cl LOADED)\<lparr>plugin_hooks := []\<rparr>)"
    by (simp add: c0 demo_new_Plugin)
  have c3: "fst (run_callback on_load ((demo_instance ?cl LOADED)\<lparr>plugin_hooks := []\<rparr>))
              = Some (Exception ''load'')"
    by (simp add: demo_on_load)
  note A = C8_failed_load_changes_nothing [of "demo_resolve ?c" "demo_enabled ?c" "''q''" None]
  note B = C8_failed_load_changes_nothing [of "demo_resolve demo_class_bad_init"
      "PluginManager_init []" "''p''" None]
  note C = C8_failed_load_changes_nothing [of "demo_resolve ?cl" "PluginManager_init []" "''p''" None]
  from A a have 1: "fst (PluginManager_load (demo_resolve ?c) (demo_enabled ?c) ''q'' None) = None
     \<and> registry (snd (PluginManager_load (demo_resolve ?c) (demo_enabled ?c) ''q'' None))
         = registry (demo_enabled ?c)
     \<and> hook_manager (snd (PluginManager_load (demo_resolve ?c) (demo_enabled ?c) ''q'' None))
         = hook_manager (demo_enabled ?c)"
    by blast
  from B b1 b2 have 2: "fst (PluginManager_load (demo_resolve demo_class_bad_init)
          (PluginManager_init []) ''p'' None) = None
     \<and> registry (snd (PluginManager_load (demo_resolve demo_class_bad_init)
          (PluginManager_init []) ''p'' None)) = registry (PluginManager_init [])
     \<and> hook_manager (snd (PluginManager_load (demo_resolve demo_class_bad_init)
          (PluginManager_init []) ''p'' None)) = hook_manager (PluginManager_init [])"
    by blast
  from C c1 c2 c3 have 3: "fst (PluginManager_load (demo_resolve ?cl)
          (PluginManager_init []) ''p'' None) = None
     \<and> registry (snd (PluginManager_load (demo_resolve ?cl)
          (PluginManager_init []) ''p'' None)) = registry (PluginManager_init [])
     \<and> hook_manager (snd (PluginManager_load (demo_resolve ?cl)
          (PluginManager_init []) ''p'' None)) = hook_manager (PluginManager_init [])"
    by blast
  from 1 2 3 show ?thesis
    by (simp add: HookManager_init_def)
qed

subsection \<open>Callbacks that raise\<close>

text \<open>
  Claim C9 says that a failing \<^verbatim>\<open>on_unload\<close> leaves the prior state of the plugin
  unchanged. On an enabled plugin whose \<^verbatim>\<open>on_disable\<close> returns and whose \<^verbatim>\<open>on_unload\<close>
  raises, \<^verbatim>\<open>unload\<close> returns failure and the plugin, enabled before, is left disabled:
  the implicit \<^verbatim>\<open>disable\<close> has taken place.
\<close>

theorem C9_counterexample:
  "state_of (demo_enabled (demo_class False False False True)) ''p'' = Some ENABLED
   \<and> fst (PluginManager_unload (demo_enabled (demo_class False False False True)) ''p'') = False
   \<and> state_of (snd (PluginManager_unload (demo_enabled (demo_class False False False True)) ''p''))
        ''p'' = Some DISABLED"
proof -
  let ?c = "demo_class False False False True"
  let ?m = "demo_enabled ?c"
  have g: "PluginRegistry_get (registry ?m) ''p'' = Some (demo_instance ?c ENABLED)"
    by (simp add: demo_enabled_get)
  have a: "state_of ?m ''p'' = Some ENABLED"
    by (simp add: state_of_def g)
  from unload_eq [OF g refl refl] obtain q where
    "PluginRegistry_get (registry (snd (PluginManager_disable ?m ''p''))) ''p'' = Some q"
    "state q = DISABLED"
    "PluginManager_unload ?m ''p''
       = (False,
          store_plugin ((snd (PluginManager_disable ?m ''p''))
              \<lparr>calls := calls (snd (PluginManager_disable ?m ''p'')) @ [(''p'', OnUnload)]\<rparr>)
            ''p'' (snd (run_callback on_unload q)))"
    by auto
  then have "fst (PluginManager_unload ?m ''p'') = False"
    and "state_of (snd (PluginManager_unload ?m ''p'')) ''p'' = Some DISABLED"
    by simp_all
  with a show ?thesis by simp
qed

text \<open>
  Claim C9, as the code has it. If \<^verbatim>\<open>on_enable\<close> raises, \<^verbatim>\<open>enable\<close> returns failure and the
  state of the plugin is \<^verbatim>\<open>error\<close>. If \<^verbatim>\<open>on_disable\<close> raises, \<^verbatim>\<open>disable\<close> returns failure and
  the state of the plugin and the hook registry are unchanged. If \<^verbatim>\<open>on_unload\<close> raises,
  \<^verbatim>\<open>unload\<close> returns failure, the plugin stays in the catalog, the hook registry and the
  loader's cache are unchanged, and the state of the plugin is its prior state, unless
  the plugin was enabled and the implicit \<^verbatim>\<open>disable\<close> succeeded: then it is \<^verbatim>\<open>disabled\<close>.
\<close>

theorem C9_transition_failures:
  "(\<forall>p e. PluginRegistry_get (registry m) n = Some p \<and> state p \<noteq> ENABLED
          \<and> raised (on_enable (cls p) (state p) (plugin_context p)) = Some e \<longrightarrow>
        fst (PluginManager_enable m n) = False
        \<and> state_of (snd (PluginManager_enable m n)) n = Some ERROR)
   \<and> (\<forall>p e. PluginRegistry_get (registry m) n = Some p \<and> state p \<noteq> DISABLED
          \<and> raised (on_disable (cls p) (state p) (plugin_context p)) = Some e \<longrightarrow>
        fst (PluginManager_disable m n) = False
        \<and> state_of (snd (PluginManager_disable m n)) n = Some (state p)
        \<and> hook_manager (snd (PluginManager_disable m n)) = hook_manager m)
   \<and> (\<forall>p e s1. PluginRegistry_get (registry m) n = Some p
          \<and> s1 = (if state p = ENABLED
                      \<and> raised (on_disable (cls p) ENABLED (plugin_context p)) = None
                   then DISABLED else state p)
          \<and> raised (on_unload (cls p) s1 (plugin_context p)) = Some e \<longrightarrow>
        fst (PluginManager_unload m n) = False
        \<and> state_of (snd (PluginManager_unload m n)) n = Some s1
        \<and> hook_manager (snd (PluginManager_unload m n)) = hook_manager m
        \<and> loader (snd (PluginManager_unload m n)) = loader m)"
proof (intro conjI allI impI; elim conjE)
  fix p e
  assume "PluginRegistry_get (registry m) n = Some p" "state p \<noteq> ENABLED"
    "raised (on_enable (cls p) (state p) (plugin_context p)) = Some e"
  then show "fst (PluginManager_enable m n) = False"
    and "state_of (snd (PluginManager_enable m n)) n = Some ERROR"
    by (simp_all add: enable_eq)
next
  fix p e
  assume "PluginRegistry_get (registry m) n = Some p" "state p \<noteq> DISABLED"
    "raised (on_disable (cls p) (state p) (plugin_context p)) = Some e"
  then show "fst (PluginManager_disable m n) = False"
    and "state_of (snd (PluginManager_disable m n)) n = Some (state p)"
    and "hook_manager (snd (PluginManager_disable m n)) = hook_manager m"
    by (simp_all add: disable_eq)
next
  fix p e s1
  assume get: "PluginRegistry_get (registry m) n = Some p"
    and s1: "s1 = (if state p = ENABLED
                      \<and> raised (on_disable (cls p) ENABLED (plugin_context p)) = None
                   then DISABLED else state p)"
    and r: "raised (on_unload (cls p) s1 (plugin_context p)) = Some e"
  define m1 where "m1 = (if state p = ENABLED then snd (PluginManager_disable m n) else m)"
  from unload_eq [OF get s1 m1_def] r obtain q where
    q: "PluginRegistry_get (registry m1) n = Some q" "state q = s1"
      "PluginManager_unload m n =
         (False, store_plugin (m1\<lparr>calls := calls m1 @ [(n, OnUnload)]\<rparr>) n
                   (snd (run_callback on_unload q)))"
    by auto
  have rest: "hook_manager m1 = hook_manager m" "loader m1 = loader m"
    using implicit_disable_rest(1,2) [OF get] by (simp_all add: m1_def)
  show "fst (PluginManager_unload m n) = False"
    and "state_of (snd (PluginManager_unload m n)) n = Some s1"
    and "hook_manager (snd (PluginManager_unload m n)) = hook_manager m"
    and "loader (snd (PluginManager_unload m n)) = loader m"
    by (simp_all add: q rest)
qed

text \<open>
  One plugin for each of the three callbacks: \<^verbatim>\<open>on_enable\<close> raises on a loaded plugin,
  \<^verbatim>\<open>on_disable\<close> raises on an enabled one, and \<^verbatim>\<open>on_unload\<close> raises on an enabled one whose
  \<^verbatim>\<open>on_disable\<close> raises too, which stays enabled.
\<close>

theorem C9_transition_failures_witness:
  "PluginRegistry_get (registry (demo_loaded (demo_class False True False False))) ''p''
       = Some (demo_instance (demo_class False True False False) LOADED)
   \<and> fst (PluginManager_enable (demo_loaded (demo_class False True False False)) ''p'') = False
   \<and> state_of (snd (PluginManager_enable (demo_loaded (demo_class False True False False)) ''p''))
        ''p'' = Some ERROR
   \<and> PluginRegistry_get (registry (demo_enabled (demo_class False False True False))) ''p''
       = Some (demo_instance (demo_class False False True False) ENABLED)
   \<and> fst (PluginManager_disable (demo_enabled (demo_class False False True False)) ''p'') = False
   \<and> state_of (snd (PluginManager_disable (demo_enabled (demo_class False False True False)) ''p''))
        ''p'' = Some ENABLED
   \<and> PluginRegistry_get (registry (demo_enabled (demo_class False False True True))) ''p''
       = Some (demo_instance (demo_class False False True True) ENABLED)
   \<and> fst (PluginManager_unload (demo_enabled (demo_class False False True True)) ''p'') = False
   \<and> state_of (snd (PluginManager_unload (demo_enabled (demo_class False False True True)) ''p''))
        ''p'' = Some ENABLED
   \<and> hook_manager (snd (PluginManager_unload (demo_enabled (demo_class False False True True)) ''p''))
       = hook_manager (demo_enabled (demo_class False False True True))"
proof -
  let ?ce = "demo_class False True False False"
  let ?cd = "demo_class False False True False"
  let ?cu = "demo_class False False True True"
  have g1: "PluginRegistry_get (registry (demo_loaded ?ce)) ''p'' = Some (demo_instance ?ce LOADED)"
    and g2: "PluginRegistry_get (registry (demo_enabled ?cd)) ''p'' = Some (demo_instance ?cd ENABLED)"
    and g3: "PluginRegistry_get (registry (demo_enabled ?cu)) ''p'' = Some (demo_instance ?cu ENABLED)"
    by (simp_all add: demo_loaded_get demo_enabled_get)
  have 1: "fst (PluginManager_enable (demo_loaded ?ce) ''p'') = False
       \<and> state_of (snd (PluginManager_enable (demo_loaded ?ce) ''p'')) ''p'' = Some ERROR"
    using C9_transition_failures [of "demo_loaded ?ce" "''p''", THEN conjunct1, rule_format,
        of "demo_instance ?ce LOADED" "Exception ''enable''"] g1
    by simp
  have 2: "fst (PluginManager_disable (demo_enabled ?cd) ''p'') = False
       \<and> state_of (snd (PluginManager_disable (demo_enabled ?cd) ''p'')) ''p'' = Some ENABLED"
    using C9_transition_failures [of "demo_enabled ?cd" "''p''", THEN conjunct2, THEN conjunct1,
        rule_format, of "demo_instance ?cd ENABLED" "Exception ''disable''"] g2
    by simp
  have 3: "fst (PluginManager_unload (demo_enabled ?cu) ''p'') = False
       \<and> state_of (snd (PluginManager_unload (demo_enabled ?cu) ''p'')) ''p'' = Some ENABLED
       \<and> hook_manager (snd (PluginManager_unload (demo_enabled ?cu) ''p''))
           = hook_manager (demo_enabled ?cu)"
    using C9_transition_failures [of "demo_enabled ?cu" "''p''", THEN conjunct2, THEN conjunct2,
        rule_format, of "demo_instance ?cu ENABLED" ENABLED "Exception ''unload''"] g3
    by simp
  from g1 g2 g3 1 2 3 show ?thesis by simp
qed

subsection \<open>Unloading after a failed disable\<close>

text \<open>
  Claim C10 says that such an \<^verbatim>\<open>unload\<close> evicts the cached type. The loader caches a type
  under the name it was loaded by, the catalog holds the instance under the name the
  \<^verbatim>\<open>info\<close> of the type gives, and \<^verbatim>\<open>unload\<close> uses one name for both. For the plugin \<open>p\<close>
  found in the module \<open>q\<close>, loaded as \<open>q\<close> and enabled as \<open>p\<close>, with an \<^verbatim>\<open>on_disable\<close> that
  raises, \<^verbatim>\<open>unload("p")\<close> succeeds and removes the instance, but the cache still holds
  the type under \<open>q\<close>, and the loader returns it for \<open>q\<close> without an import.
\<close>

theorem C10_counterexample:
  "state_of (demo_q_enabled (demo_class False False True False)) ''p'' = Some ENABLED
   \<and> loaded (loader (demo_q_enabled (demo_class False False True False)))
       = [(''q'', demo_class False False True False)]
   \<and> fst (PluginManager_unload (demo_q_enabled (demo_class False False True False)) ''p'') = True
   \<and> state_of (snd (PluginManager_unload (demo_q_enabled (demo_class False False True False)) ''p''))
        ''p'' = None
   \<and> loaded (loader
        (snd (PluginManager_unload (demo_q_enabled (demo_class False False True False)) ''p'')))
       = [(''q'', demo_class False False True False)]
   \<and> fst (PluginLoader_load (\<lambda>n path. None)
        (loader (snd (PluginManager_unload (demo_q_enabled (demo_class False False True False)) ''p'')))
        ''q'' None)
       = Some (demo_class False False True False)"
proof -
  let ?c = "demo_class False False True False"
  let ?m = "demo_q_enabled ?c"
  have g: "PluginRegistry_get (registry ?m) ''p'' = Some (demo_q_instance ?c ENABLED)"
    by (simp add: demo_q_enabled_eq PluginRegistry_get_def)
  have a: "state_of ?m ''p'' = Some ENABLED"
    by (simp add: state_of_def g)
  have b: "loaded (loader ?m) = [(''q'', ?c)]"
    by (simp add: demo_q_enabled_eq)
  define m1 where "m1 = (if state (demo_q_instance ?c ENABLED) = ENABLED
                         then snd (PluginManager_disable ?m ''p'') else ?m)"
  from unload_eq [OF g refl m1_def]
  have u: "PluginManager_unload ?m ''p'' =
      (True,
       m1\<lparr>calls := calls m1 @ [(''p'', OnUnload)],
          hook_manager := snd (HookManager_unregister (hook_manager m1) ''p''),
          registry := snd (PluginRegistry_unregister (registry m1) ''p''),
          loader := snd (PluginLoader_unload (loader m1) ''p'')\<rparr>)"
    by auto
  have l1: "loader m1 = loader ?m"
    using implicit_disable_rest(2) [OF g] by (simp add: m1_def)
  have c: "fst (PluginManager_unload ?m ''p'') = True"
    by (simp add: u)
  have d: "state_of (snd (PluginManager_unload ?m ''p'')) ''p'' = None"
    by (simp add: u state_of_def)
  have e: "loaded (loader (snd (PluginManager_unload ?m ''p''))) = [(''q'', ?c)]"
    by (simp add: u l1 b PluginLoader_unload_def)
  have f: "fst (PluginLoader_load (\<lambda>n path. None)
             (loader (snd (PluginManager_unload ?m ''p''))) ''q'' None) = Some ?c"
    by (simp add: PluginLoader_load_def e)
  from a b c d e f show ?thesis by simp
qed

text \<open>
  Claim C10, as the code has it. When \<^verbatim>\<open>unload\<close> is called on an enabled plugin whose
  \<^verbatim>\<open>on_disable\<close> raises and whose \<^verbatim>\<open>on_unload\<close> returns, the failure of the implicit
  \<^verbatim>\<open>disable\<close> does not stop it: \<^verbatim>\<open>on_disable\<close> and then \<^verbatim>\<open>on_unload\<close> are invoked, \<^verbatim>\<open>unload\<close>
  returns success, the name is no longer in the catalog, no registration owned by the
  name is left in the hook registry (the others are untouched), and the loader's cache
  has no type under the name given to \<^verbatim>\<open>unload\<close>. The cache entries under every other name
  and the other catalog entries are left as they were: a type that was loaded under a
  name other than the one its \<^verbatim>\<open>info\<close> gives stays cached.
\<close>

theorem C10_unload_despite_failed_disable:
  assumes "PluginRegistry_get (registry m) n = Some p"
    and "state p = ENABLED"
    and "raised (on_disable (cls p) ENABLED (plugin_context p)) = Some e"
    and "raised (on_unload (cls p) ENABLED (plugin_context p)) = None"
  shows "fst (PluginManager_unload m n) = True
       \<and> calls (snd (PluginManager_unload m n)) = calls m @ [(n, OnDisable), (n, OnUnload)]
       \<and> PluginRegistry_get (registry (snd (PluginManager_unload m n))) n = None
       \<and> (\<forall>h. hooks_get (hook_manager (snd (PluginManager_unload m n))) h
              = filter (\<lambda>r. plugin_name r \<noteq> n) (hooks_get (hook_manager m) h))
       \<and> map_of (loaded (loader (snd (PluginManager_unload m n)))) n = None
       \<and> (\<forall>n'. n' \<noteq> n \<longrightarrow>
             map_of (loaded (loader (snd (PluginManager_unload m n)))) n'
               = map_of (loaded (loader m)) n'
             \<and> PluginRegistry_get (registry (snd (PluginManager_unload m n))) n'
               = PluginRegistry_get (registry m) n')"
proof -
  define m1 where "m1 = (if state p = ENABLED then snd (PluginManager_disable m n) else m)"
  from unload_eq [OF assms(1) refl m1_def] assms(2,3,4)
  have u: "PluginManager_unload m n =
      (True,
       m1\<lparr>calls := calls m1 @ [(n, OnUnload)],
          hook_manager := snd (HookManager_unregister (hook_manager m1) n),
          registry := snd (PluginRegistry_unregister (registry m1) n),
          loader := snd (PluginLoader_unload (loader m1) n)\<rparr>)"
    by auto
  have r: "hook_manager m1 = hook_manager m" "calls m1 = calls m @ [(n, OnDisable)]"
    "loader m1 = loader m"
    using implicit_disable_rest(1,2,3) [OF assms(1)] assms(2) by (simp_all add: m1_def)
  have o: "PluginRegistry_get (registry m1) n' = PluginRegistry_get (registry m) n'"
    if "n' \<noteq> n" for n'
    using implicit_disable_rest(4) [OF assms(1) that] by (simp add: m1_def)
  show ?thesis
    by (simp add: u r o hooks_get_unregister)
qed

text \<open>
  The statement on the manager that has loaded the plugin \<open>p\<close> from the module \<open>q\<close> and
  enabled it, with an \<^verbatim>\<open>on_disable\<close> that raises: the cache entry under \<open>q\<close> is one of
  those left as they were.
\<close>

theorem C10_unload_despite_failed_disable_witness:
  "PluginRegistry_get (registry (demo_q_enabled (demo_class False False True False))) ''p''
       = Some (demo_q_instance (demo_class False False True False) ENABLED)
   \<and> raised (on_disable (demo_class False False True False) ENABLED
               \<lparr>ctx_plugin_name = ''q'', config = [], data = []\<rparr>) = Some (Exception ''disable'')
   \<and> raised (on_unload (demo_class False False True False) ENABLED
               \<lparr>ctx_plugin_name = ''q'', config = [], data = []\<rparr>) = None
   \<and> fst (PluginManager_unload (demo_q_enabled (demo_class False False True False)) ''p'') = True
   \<and> calls (snd (PluginManager_unload (demo_q_enabled (demo_class False False True False)) ''p''))
       = [(''q'', OnLoad), (''p'', OnEnable), (''p'', OnDisable), (''p'', OnUnload)]
   \<and> PluginRegistry_get
        (registry (snd (PluginManager_unload (demo_q_enabled (demo_class False False True False)) ''p'')))
        ''p'' = None
   \<and> hooks_get
        (hook_manager (snd (PluginManager_unload (demo_q_enabled (demo_class False False True False)) ''p'')))
        ''h'' = []
   \<and> map_of (loaded (loader
        (snd (PluginManager_unload (demo_q_enabled (demo_class False False True False)) ''p''))))
        ''p'' = None
   \<and> ''q'' \<noteq> ''p''
   \<and> map_of (loaded (loader
        (snd (PluginManager_unload (demo_q_enabled (demo_class False False True False)) ''p''))))
        ''q'' = Some (demo_class False False True False)"
proof -
  let ?c = "demo_class False False True False"
  have g: "PluginRegistry_get (registry (demo_q_enabled ?c)) ''p''
             = Some (demo_q_instance ?c ENABLED)"
    by (simp add: demo_q_enabled_eq PluginRegistry_get_def)
  have s: "state (demo_q_instance ?c ENABLED) = ENABLED"
    by simp
  have d: "raised (on_disable (cls (demo_q_instance ?c ENABLED)) ENABLED
                     (plugin_context (demo_q_instance ?c ENABLED))) = Some (Exception ''disable'')"
    and u: "raised (on_unload (cls (demo_q_instance ?c ENABLED)) ENABLED
                     (plugin_context (demo_q_instance ?c ENABLED))) = None"
    by simp_all
  have h: "hooks_get (hook_manager (demo_q_enabled ?c)) ''h''
             = plugin_hooks (demo_instance ?c LOADED)"
    and l: "map_of (loaded (loader (demo_q_enabled ?c))) ''q'' = Some ?c"
    and c: "calls (demo_q_enabled ?c) = [(''q'', OnLoad), (''p'', OnEnable)]"
    by (simp_all add: demo_q_enabled_eq hooks_get_def)
  have ne: "''q'' \<noteq> ''p''" by simp
  note t = C10_unload_despite_failed_disable [OF g s d u]
  note t1 = t [THEN conjunct1]
  note t2 = t [THEN conjunct2, THEN conjunct1]
  note t3 = t [THEN conjunct2, THEN conjunct2, THEN conjunct1]
  note t4 = t [THEN conjunct2, THEN conjunct2, THEN conjunct2, THEN conjunct1, rule_format,
      of "''h''"]
  note t5 = t [THEN conjunct2, THEN conjunct2, THEN conjunct2, THEN conjunct2, THEN conjunct1]
  note t6 = t [THEN conjunct2, THEN conjunct2, THEN conjunct2, THEN conjunct2, THEN conjunct2,
      rule_format, OF ne, THEN conjunct1]
  from t1 have 1: "fst (PluginManager_unload (demo_q_enabled ?c) ''p'') = True" .
  from t2 have 2: "calls (snd (PluginManager_unload (demo_q_enabled ?c) ''p''))
             = [(''q'', OnLoad), (''p'', OnEnable), (''p'', OnDisable), (''p'', OnUnload)]"
    by (simp add: c)
  from t3 have 3: "PluginRegistry_get (registry (snd (PluginManager_unload (demo_q_enabled ?c) ''p'')))
             ''p'' = None" .
  from t5 have 5: "map_of (loaded (loader (snd (PluginManager_unload (demo_q_enabled ?c) ''p'')))) ''p''
             = None" .
  from t4 have 4: "hooks_get (hook_manager (snd (PluginManager_unload (demo_q_enabled ?c) ''p'')))
      ''h'' = []"
    by (simp add: h demo_instance_def)
  from t6 have 6: "map_of (loaded (loader (snd (PluginManager_unload (demo_q_enabled ?c) ''p''))))
      ''q'' = Some ?c"
    by (simp add: l)
  from g d u 1 2 3 4 5 6 ne show ?thesis by (simp del: not_None_eq)
qed

end
